theory Spec2Isabelle
  imports
    Main
    "HOL-Library.Char_ord"
    "HOL-Library.List_Lexorder"
    "HOL-Library.Product_Lexorder"
    "HOL-Library.Option_ord"
    "HOL-Library.Multiset"
begin

section \<open>StateSpaceGridApp: the state store and the controller\<close>

text \<open>
  A shallow embedding of \<^verbatim>\<open>statespacegridapp/model.py\<close> and
  \<^verbatim>\<open>statespacegridapp/controller.py\<close>. Python strings are character lists,
  compared lexicographically by character code as Python compares \<^verbatim>\<open>str\<close>.
  Exceptions are values of the type \<open>error\<close>; an operation that mutates the state
  returns the state it leaves behind together with either the exception it raised or
  the listener calls it made.
\<close>

subsection \<open>Strings and paths\<close>

text \<open>
  \<^verbatim>\<open>str.strip()\<close> removes leading and trailing whitespace. A character of the model
  is a code point below 256. Python's whitespace among these is tab, line feed,
  vertical tab, form feed, carriage return, the four separators 28 to 31, the space,
  the next-line character 133 and the no-break space 160.
\<close>

definition is_space :: "char \<Rightarrow> bool" where
  "is_space c = (of_char c \<in> {9, 10, 11, 12, 13, 28, 29, 30, 31, 32, 133, 160 :: nat})"

definition strip :: "string \<Rightarrow> string" where
  "strip s = rev (dropWhile is_space (rev (dropWhile is_space s)))"

text \<open>\<^verbatim>\<open>s.split(sep)\<close> for a one-character separator: the pieces between the separators.\<close>

fun split :: "char \<Rightarrow> string \<Rightarrow> string list" where
  "split sep [] = [[]]"
| "split sep (c # cs) =
     (if c = sep then [] # split sep cs
      else (case split sep cs of [] \<Rightarrow> [[c]] | t # ts \<Rightarrow> (c # t) # ts))"

text \<open>\<^verbatim>\<open>sep.join(xs)\<close>.\<close>

fun join :: "string \<Rightarrow> string list \<Rightarrow> string" where
  "join sep [] = []"
| "join sep [x] = x"
| "join sep (x # y # ys) = x @ sep @ join sep (y # ys)"

text \<open>\<^verbatim>\<open>s.rfind(c)\<close>: the index of the last occurrence of \<open>c\<close>, or \<open>-1\<close>.\<close>

definition rfind :: "char \<Rightarrow> string \<Rightarrow> int" where
  "rfind c p =
     (if c \<in> set p then int (length p) - 1 - int (length (takeWhile (\<lambda>x. x \<noteq> c) (rev p)))
      else - 1)"

text \<open>
  \<^verbatim>\<open>os.path.splitext\<close> and \<^verbatim>\<open>os.path.basename\<close> of the standard library
  (\<^verbatim>\<open>posixpath\<close>): the extension starts at the last dot of the last path component,
  unless that component has only dots before it. The loop of \<^verbatim>\<open>_splitext\<close> looks for
  a character other than a dot in \<^verbatim>\<open>p[sepIndex+1:dotIndex]\<close>.
\<close>

definition splitext :: "string \<Rightarrow> string \<times> string" where
  "splitext p =
     (let sepIndex = rfind (CHR ''/'') p; dotIndex = rfind (CHR ''.'') p in
      if dotIndex > sepIndex \<and>
         list_ex (\<lambda>c. c \<noteq> CHR ''.'')
           (take (nat (dotIndex - (sepIndex + 1))) (drop (nat (sepIndex + 1)) p))
      then (take (nat dotIndex) p, drop (nat dotIndex) p)
      else (p, []))"

definition basename :: "string \<Rightarrow> string" where
  "basename p = drop (nat (rfind (CHR ''/'') p + 1)) p"

subsection \<open>Errors\<close>

text \<open>
  \<^verbatim>\<open>AppError\<close> is the one exception class of the controller; its message tells the
  kinds of failure apart. \<open>KeyError\<close>, \<open>ValueError\<close> and \<open>TypeError\<close> are the
  built-in exceptions raised by a column lookup, by a conversion to float and by a
  comparison of \<^verbatim>\<open>None\<close> with a string; \<open>IOError\<close> stands for a failure of the file
  parser.
\<close>

datatype error =
    AppError string
  | KeyError string
  | ValueError string
  | TypeError
  | IOError string

subsection \<open>Tables\<close>

text \<open>
  A \<^verbatim>\<open>DataFrame\<close> read with \<^verbatim>\<open>dtype=str\<close>: named columns of cells, a cell being a
  string or missing (\<^verbatim>\<open>NaN\<close>, here \<open>None\<close>).
\<close>

type_synonym cell = "string option"
type_synonym DataFrame = "(string \<times> cell list) list"

definition keys :: "DataFrame \<Rightarrow> string list" where
  "keys df = map fst df"

text \<open>\<^verbatim>\<open>df[h]\<close> raises \<^verbatim>\<open>KeyError\<close> for a name that is no column.\<close>

definition getitem :: "DataFrame \<Rightarrow> string \<Rightarrow> error + cell list" where
  "getitem df h = (case map_of df h of None \<Rightarrow> Inl (KeyError h) | Some col \<Rightarrow> Inr col)"

definition dropna :: "cell list \<Rightarrow> string list" where
  "dropna col = List.map_filter (\<lambda>v. v) col"

text \<open>
  \<^verbatim>\<open>.astype(float)\<close>: every value is parsed, and one that is no number raises
  \<^verbatim>\<open>ValueError\<close>. The parser \<open>to_float\<close> is a parameter, and so is the type of
  floats.
\<close>

fun astype_float :: "(string \<Rightarrow> 'f option) \<Rightarrow> string list \<Rightarrow> error + 'f list" where
  "astype_float to_float [] = Inr []"
| "astype_float to_float (v # vs) =
     (case to_float v of
        None \<Rightarrow> Inl (ValueError v)
      | Some x \<Rightarrow>
          (case astype_float to_float vs of Inl e \<Rightarrow> Inl e | Inr xs \<Rightarrow> Inr (x # xs)))"

text \<open>
  \<^verbatim>\<open>list(df.groupby(h))\<close>: one pair of key and sub-table for each distinct value of
  the column \<open>h\<close> that is not missing, the keys in ascending order, each sub-table
  holding the rows with that key; \<^verbatim>\<open>KeyError\<close> for a name that is no column.
\<close>

definition select_rows :: "bool list \<Rightarrow> 'a list \<Rightarrow> 'a list" where
  "select_rows sel xs = map snd (filter fst (zip sel xs))"

definition group_keys :: "cell list \<Rightarrow> string list" where
  "group_keys col = sort (remdups (dropna col))"

definition groupby :: "DataFrame \<Rightarrow> string \<Rightarrow> error + (string \<times> DataFrame) list" where
  "groupby df h =
     (case map_of df h of
        None \<Rightarrow> Inl (KeyError h)
      | Some col \<Rightarrow>
          Inr (map (\<lambda>k. (k, map (\<lambda>(n, c). (n, select_rows (map (\<lambda>v. v = Some k) col) c)) df))
                 (group_keys col)))"

subsection \<open>The state store\<close>

record DataObjectIdentifier =
  id_filename :: string
  id_id :: "string option"

text \<open>\<^verbatim>\<open>DataObjectIdentifier.__str__\<close>.\<close>

definition str_of :: "DataObjectIdentifier \<Rightarrow> string" where
  "str_of i = (case id_id i of Some g \<Rightarrow> id_filename i @ ''::'' @ g | None \<Rightarrow> id_filename i)"

record DataObjectHolder =
  filename :: DataObjectIdentifier
  headers :: "string list"
  data :: DataFrame
  selected :: bool

definition setSelected :: "DataObjectHolder \<Rightarrow> bool \<Rightarrow> DataObjectHolder" where
  "setSelected d is_selected = d\<lparr>selected := is_selected\<rparr>"

text \<open>
  The listeners are callbacks of the user interface; the state holds their names, and a
  call of listener \<open>l\<close> with the list \<open>ds\<close> is the pair \<open>(l, ds)\<close>. The two plot
  handles are names as well.
\<close>

record AppState =
  data_objects :: "DataObjectHolder list"
  split_data_objects :: "DataObjectHolder list"
  split_by_id :: "string option"
  y_header :: "string option"
  x_header :: "string option"
  t_header :: "string option"
  x_range :: "string list"
  y_range :: "string list"
  matpltlib_fig :: "nat option"
  matpltlib_ax :: "nat option"
  data_object_listeners :: "nat list"

type_synonym notification = "nat \<times> DataObjectHolder list"
type_synonym outcome = "AppState \<times> (error + notification list)"

text \<open>The state of \<^verbatim>\<open>AppState()\<close>: every field at its default.\<close>

definition init_state :: AppState where
  "init_state =
     \<lparr>data_objects = [], split_data_objects = [], split_by_id = None,
      y_header = None, x_header = None, t_header = None, x_range = [], y_range = [],
      matpltlib_fig = None, matpltlib_ax = None, data_object_listeners = []\<rparr>"

definition getDataObjects :: "AppState \<Rightarrow> DataObjectHolder list" where
  "getDataObjects s =
     (if split_data_objects s \<noteq> [] then split_data_objects s else data_objects s)"

definition getIDs :: "AppState \<Rightarrow> string list" where
  "getIDs s = map (\<lambda>data_obj. str_of (filename data_obj)) (getDataObjects s)"

text \<open>
  The key of \<^verbatim>\<open>attrgetter("filename.filename", "filename.id")\<close> is the pair of the
  file name and the optional group id. Python compares two such tuples by their file
  names and, when these are equal, by their ids; two ids that are both \<^verbatim>\<open>None\<close> are
  equal, two strings are compared as strings, and \<^verbatim>\<open>None\<close> against a string raises
  \<^verbatim>\<open>TypeError\<close>. \<open>py_sorted\<close> is the stable sort of \<^verbatim>\<open>sorted\<close> on a list whose keys
  are all comparable with each other. On a list with two keys that are not,
  \<^verbatim>\<open>sorted\<close> raises when it compares these two, which depends on the order of the
  list; the model raises on every such list.
\<close>

definition sort_key_of :: "DataObjectHolder \<Rightarrow> string \<times> string option" where
  "sort_key_of d = (id_filename (filename d), id_id (filename d))"

definition comparable :: "string \<times> string option \<Rightarrow> string \<times> string option \<Rightarrow> bool" where
  "comparable a b = (if fst a = fst b then (snd a = None) = (snd b = None) else True)"

definition py_sorted :: "DataObjectHolder list \<Rightarrow> error + DataObjectHolder list" where
  "py_sorted xs =
     (if list_all (\<lambda>x. list_all (\<lambda>y. comparable (sort_key_of x) (sort_key_of y)) xs) xs
      then Inr (sort_key sort_key_of xs)
      else Inl TypeError)"

definition update :: "AppState \<Rightarrow> error + notification list" where
  "update s =
     (case py_sorted (getDataObjects s) of
        Inl e \<Rightarrow> Inl e
      | Inr ds \<Rightarrow> Inr (map (\<lambda>listener. (listener, ds)) (data_object_listeners s)))"

text \<open>
  \<^verbatim>\<open>_splitByID\<close>. The table is grouped before anything is appended, so an exception
  leaves the state as it was. Grouping by \<^verbatim>\<open>None\<close> raises \<^verbatim>\<open>TypeError\<close> in pandas.
  The id \<^verbatim>\<open>f"{id}"\<close> of a group is its key, a string.
\<close>

definition splitByID :: "AppState \<Rightarrow> DataObjectHolder \<Rightarrow> error + AppState" where
  "splitByID s data_object =
     (case split_by_id s of
        None \<Rightarrow> Inl TypeError
      | Some h \<Rightarrow>
          (case groupby (data data_object) h of
             Inl e \<Rightarrow> Inl e
           | Inr split_data \<Rightarrow>
               Inr (s\<lparr>split_data_objects := split_data_objects s @
                      map (\<lambda>(k, datum).
                             \<lparr>filename = \<lparr>id_filename = id_filename (filename data_object),
                                          id_id = Some k\<rparr>,
                              headers = headers data_object, data = datum, selected = True\<rparr>)
                          split_data\<rparr>)))"

text \<open>Python's truth value of an optional string: \<^verbatim>\<open>None\<close> and \<^verbatim>\<open>""\<close> are false.\<close>

definition truthy :: "string option \<Rightarrow> bool" where
  "truthy v = (case v of None \<Rightarrow> False | Some t \<Rightarrow> t \<noteq> [])"

definition addDataObject :: "AppState \<Rightarrow> string \<Rightarrow> DataFrame \<Rightarrow> outcome" where
  "addDataObject s file_path df =
     (let s1 = s\<lparr>data_objects := data_objects s @
                 [\<lparr>filename = \<lparr>id_filename = basename file_path, id_id = None\<rparr>,
                   headers = keys df, data = df, selected = True\<rparr>]\<rparr>
      in if truthy (split_by_id s1)
         then (case splitByID s1 (last (data_objects s1)) of
                 Inl e \<Rightarrow> (s1, Inl e)
               | Inr s2 \<Rightarrow> (s2, update s2))
         else (s1, update s1))"

definition addDataListener :: "AppState \<Rightarrow> nat \<Rightarrow> AppState" where
  "addDataListener s listener = s\<lparr>data_object_listeners := data_object_listeners s @ [listener]\<rparr>"

text \<open>The loop of \<^verbatim>\<open>addSplitByID\<close>; it stops at the first exception.\<close>

fun split_each :: "AppState \<Rightarrow> DataObjectHolder list \<Rightarrow> AppState \<times> error option" where
  "split_each s [] = (s, None)"
| "split_each s (d # ds) =
     (case splitByID s d of Inl e \<Rightarrow> (s, Some e) | Inr s' \<Rightarrow> split_each s' ds)"

definition addSplitByID :: "AppState \<Rightarrow> string \<Rightarrow> outcome" where
  "addSplitByID s i =
     (let s1 = s\<lparr>split_data_objects := []\<rparr> in
      if i = [] then (let s2 = s1\<lparr>split_by_id := None\<rparr> in (s2, update s2))
      else (let s2 = s1\<lparr>split_by_id := Some i\<rparr> in
            case split_each s2 (data_objects s2) of
              (s3, Some e) \<Rightarrow> (s3, Inl e)
            | (s3, None) \<Rightarrow> (s3, update s3)))"

definition reset :: "AppState \<Rightarrow> outcome" where
  "reset s =
     (let s' = s\<lparr>data_objects := [], split_data_objects := [], split_by_id := None,
                 x_header := None, y_header := None, t_header := None\<rparr>
      in (s', update s'))"

definition set_x_header :: "AppState \<Rightarrow> string \<Rightarrow> AppState" where
  "set_x_header s header = s\<lparr>x_header := Some header\<rparr>"

definition set_y_header :: "AppState \<Rightarrow> string \<Rightarrow> AppState" where
  "set_y_header s header = s\<lparr>y_header := Some header\<rparr>"

definition set_t_header :: "AppState \<Rightarrow> string \<Rightarrow> AppState" where
  "set_t_header s header = s\<lparr>t_header := Some header\<rparr>"

definition set_x_range :: "AppState \<Rightarrow> string \<Rightarrow> AppState" where
  "set_x_range s range_list = s\<lparr>x_range := map strip (split (CHR '','') range_list)\<rparr>"

definition set_y_range :: "AppState \<Rightarrow> string \<Rightarrow> AppState" where
  "set_y_range s range_list = s\<lparr>y_range := map strip (split (CHR '','') range_list)\<rparr>"

definition set_plot_structures :: "AppState \<Rightarrow> nat \<Rightarrow> nat \<Rightarrow> AppState" where
  "set_plot_structures s fig ax = s\<lparr>matpltlib_fig := Some fig, matpltlib_ax := Some ax\<rparr>"

subsection \<open>The controller\<close>

text \<open>
  A trajectory and the measures of trajectories belong to the library
  \<^verbatim>\<open>statespacegrid\<close>: a trajectory is the record of the four arguments of its
  constructor, and \<^verbatim>\<open>get_measures\<close> is a parameter that returns measures of some
  type \<open>'m\<close> or raises.
\<close>

datatype 'f Trajectory =
  Trajectory (traj_x_range: "string list") (traj_y_range: "string list")
    (states: "(string \<times> string) list") (times: "'f list")

text \<open>
  The readers found by the constructor of \<^verbatim>\<open>AppControl\<close>: it walks over
  \<^verbatim>\<open>dir(AppControl)\<close>, which is sorted by name, and enters each method under the
  extension its decorator gave it. The dictionary keeps this order.
\<close>

datatype reader = read_csv | read_traj | read_tsv | read_xls

definition file_readers :: "(string \<times> reader) list" where
  "file_readers =
     [(''.csv'', read_csv), (''.traj'', read_traj), (''.tsv'', read_tsv), (''xls'', read_xls)]"

record AppControl =
  state :: AppState
  plot_listener :: "nat option"
  measure_listener :: "nat option"
  resets :: "nat list"

definition init_control :: AppControl where
  "init_control =
     \<lparr>state = init_state, plot_listener = None, measure_listener = None, resets = []\<rparr>"

text \<open>A call of the plot listener or of the measure listener.\<close>

datatype ('f, 'm) call =
    plot_call nat "'f Trajectory list" "string option" "string option"
  | measure_call nat 'm

text \<open>
  One element of the list comprehension of \<^verbatim>\<open>getTrajectories\<close>. The arguments of
  the constructor are evaluated in the order written: the x column, the y column, the
  time column and its conversion.
\<close>

definition make_trajectory ::
  "(string \<Rightarrow> 'f option) \<Rightarrow> AppState \<Rightarrow> string \<Rightarrow> string \<Rightarrow> string \<Rightarrow>
     DataObjectHolder \<Rightarrow> error + 'f Trajectory" where
  "make_trajectory to_float s xh yh th d =
     (case getitem (data d) xh of
        Inl e \<Rightarrow> Inl e
      | Inr xs \<Rightarrow>
          (case getitem (data d) yh of
             Inl e \<Rightarrow> Inl e
           | Inr ys \<Rightarrow>
               (case getitem (data d) th of
                  Inl e \<Rightarrow> Inl e
                | Inr ts \<Rightarrow>
                    (case astype_float to_float (dropna ts) of
                       Inl e \<Rightarrow> Inl e
                     | Inr tm \<Rightarrow>
                         Inr (Trajectory (x_range s) (y_range s)
                                (zip (dropna xs) (dropna ys)) tm)))))"

fun make_trajectories ::
  "(string \<Rightarrow> 'f option) \<Rightarrow> AppState \<Rightarrow> string \<Rightarrow> string \<Rightarrow> string \<Rightarrow>
     DataObjectHolder list \<Rightarrow> error + 'f Trajectory list" where
  "make_trajectories to_float s xh yh th [] = Inr []"
| "make_trajectories to_float s xh yh th (d # ds) =
     (if selected d
      then (case make_trajectory to_float s xh yh th d of
              Inl e \<Rightarrow> Inl e
            | Inr t \<Rightarrow>
                (case make_trajectories to_float s xh yh th ds of
                   Inl e \<Rightarrow> Inl e
                 | Inr ts \<Rightarrow> Inr (t # ts)))
      else make_trajectories to_float s xh yh th ds)"

definition getTrajectories ::
  "(string \<Rightarrow> 'f option) \<Rightarrow> AppControl \<Rightarrow> error + 'f Trajectory list" where
  "getTrajectories to_float c =
     (case (x_header (state c), y_header (state c), t_header (state c)) of
        (Some xh, Some yh, Some th) \<Rightarrow>
          if x_range (state c) = [] \<or> y_range (state c) = []
          then Inl (AppError
            ''Set the x and y range as a comma separated list in the for '1,2,3' or 'a,b,c' before plotting'')
          else make_trajectories to_float (state c) xh yh th (getDataObjects (state c))
      | _ \<Rightarrow>
          Inl (AppError
            ''Select a value for the x header, y header and time header before plotting''))"

text \<open>
  \<^verbatim>\<open>plot\<close> returns the calls it made and the exception it raised, if any: the plot
  listener has been called when the missing measure listener is found.
\<close>

definition plot ::
  "('f Trajectory list \<Rightarrow> error + 'm) \<Rightarrow> (string \<Rightarrow> 'f option) \<Rightarrow> AppControl \<Rightarrow>
     ('f, 'm) call list \<times> error option" where
  "plot get_measures to_float c =
     (case getTrajectories to_float c of
        Inl e \<Rightarrow> ([], Some e)
      | Inr trajectories \<Rightarrow>
          (case plot_listener c of
             None \<Rightarrow>
               ([], Some (AppError
                  ''Problem with app generation - no associated plot function for plot display''))
           | Some pl \<Rightarrow>
               (let calls = [plot_call pl trajectories (x_header (state c)) (y_header (state c))]
                in case measure_listener c of
                     None \<Rightarrow>
                       (calls, Some (AppError
                          ''Problem with app generation - no associated function for measure display''))
                   | Some ml \<Rightarrow>
                       if trajectories \<noteq> []
                       then (case get_measures trajectories of
                               Inl e \<Rightarrow> (calls, Some e)
                             | Inr m \<Rightarrow> (calls @ [measure_call ml m], None))
                       else (calls, None))))"

text \<open>
  \<^verbatim>\<open>export_measures\<close> returns the list of rows handed to the writer of the file. A row
  is the measures of \<^verbatim>\<open>asdict\<close> with the \<^verbatim>\<open>"id"\<close> entry put before them, or without
  one.
\<close>

fun measure_each ::
  "('f Trajectory list \<Rightarrow> error + 'm) \<Rightarrow> (string \<times> 'f Trajectory) list \<Rightarrow>
     error + (string option \<times> 'm) list" where
  "measure_each get_measures [] = Inr []"
| "measure_each get_measures ((i, traj) # rest) =
     (case get_measures [traj] of
        Inl e \<Rightarrow> Inl e
      | Inr m \<Rightarrow>
          (case measure_each get_measures rest of
             Inl e \<Rightarrow> Inl e
           | Inr rows \<Rightarrow> Inr ((Some i, m) # rows)))"

definition export_measures ::
  "('f Trajectory list \<Rightarrow> error + 'm) \<Rightarrow> (string \<Rightarrow> 'f option) \<Rightarrow> AppControl \<Rightarrow> bool \<Rightarrow>
     error + (string option \<times> 'm) list" where
  "export_measures get_measures to_float c do_for_individual_trajectories =
     (case getTrajectories to_float c of
        Inl e \<Rightarrow> Inl e
      | Inr trajectories \<Rightarrow>
          (let trajectory_ids = getIDs (state c) in
           if do_for_individual_trajectories
           then measure_each get_measures (zip trajectory_ids trajectories)
           else (case get_measures trajectories of
                   Inl e \<Rightarrow> Inl e
                 | Inr m \<Rightarrow> Inr [(None, m)])))"

text \<open>
  The readers parse the file with pandas, the parameter \<open>pd_read\<close>, and hand the
  table to the state store.
\<close>

definition run_reader ::
  "(reader \<Rightarrow> string \<Rightarrow> error + DataFrame) \<Rightarrow> AppControl \<Rightarrow> reader \<Rightarrow> string \<Rightarrow>
     AppControl \<times> (error + notification list)" where
  "run_reader pd_read c r file_path =
     (case pd_read r file_path of
        Inl e \<Rightarrow> (c, Inl e)
      | Inr df \<Rightarrow>
          (case addDataObject (state c) file_path df of
             (s', res) \<Rightarrow> (c\<lparr>state := s'\<rparr>, res)))"

definition read_file ::
  "(reader \<Rightarrow> string \<Rightarrow> error + DataFrame) \<Rightarrow> AppControl \<Rightarrow> string \<Rightarrow>
     AppControl \<times> (error + notification list)" where
  "read_file pd_read c file_path =
     (let extension = snd (splitext file_path) in
      case map_of file_readers extension of
        Some r \<Rightarrow> run_reader pd_read c r file_path
      | None \<Rightarrow>
          (c, Inl (AppError
             (''StateSpaceGridApp can't handle file of extension type '' @ extension @
              ''. Please use one of '' @ join '', '' (map fst file_readers)))))"

definition canHandle :: "string \<Rightarrow> bool" where
  "canHandle extension = (map_of file_readers extension \<noteq> None)"

subsection \<open>Notions used in the statements\<close>

text \<open>
  Python's \<open>\<le>\<close> on two sort keys where it is defined: by file name, then by id, two
  absent ids being equal; an absent id and a present one are not related.
\<close>

definition py_le :: "string \<times> string option \<Rightarrow> string \<times> string option \<Rightarrow> bool" where
  "py_le a b =
     (fst a < fst b \<or>
      (fst a = fst b \<and>
       (case (snd a, snd b) of
          (None, None) \<Rightarrow> True
        | (Some x, Some y) \<Rightarrow> x \<le> y
        | _ \<Rightarrow> False)))"

text \<open>
  The operations of the state store that change the dataset collections, and a run of
  them from a state. An operation that raises leaves the state it had reached, and the
  run goes on from there, as the application does after a failed call.
\<close>

datatype operation =
    AddDataObject string DataFrame
  | AddSplitByID string
  | Reset

fun step :: "AppState \<Rightarrow> operation \<Rightarrow> AppState" where
  "step s (AddDataObject file_path df) = fst (addDataObject s file_path df)"
| "step s (AddSplitByID i) = fst (addSplitByID s i)"
| "step s Reset = fst (reset s)"

definition run :: "AppState \<Rightarrow> operation list \<Rightarrow> AppState" where
  "run s ops = foldl step s ops"

definition ungrouped :: "DataObjectHolder \<Rightarrow> bool" where
  "ungrouped d = (id_id (filename d) = None)"

definition grouped :: "DataObjectHolder \<Rightarrow> bool" where
  "grouped d = (id_id (filename d) \<noteq> None)"

text \<open>The number of distinct values of a column that are not missing; 0 without the column.\<close>

definition distinct_values :: "DataFrame \<Rightarrow> string \<Rightarrow> nat" where
  "distinct_values df h = (case map_of df h of None \<Rightarrow> 0 | Some col \<Rightarrow> card (set (dropna col)))"

definition has_column :: "DataFrame \<Rightarrow> string \<Rightarrow> bool" where
  "has_column df h = (map_of df h \<noteq> None)"

text \<open>A dataset whose x, y and time columns exist and whose times are all numbers.\<close>

definition plottable ::
  "(string \<Rightarrow> 'f option) \<Rightarrow> string \<Rightarrow> string \<Rightarrow> string \<Rightarrow> DataObjectHolder \<Rightarrow> bool" where
  "plottable to_float xh yh th d =
     (has_column (data d) xh \<and> has_column (data d) yh \<and>
      (case map_of (data d) th of
         None \<Rightarrow> False
       | Some ts \<Rightarrow> list_all (\<lambda>v. to_float v \<noteq> None) (dropna ts)))"

text \<open>The ids of the groups of a table by a column, in the order of \<^verbatim>\<open>groupby\<close>.\<close>

definition group_ids :: "DataFrame \<Rightarrow> string \<Rightarrow> string list" where
  "group_ids df h = (case map_of df h of None \<Rightarrow> [] | Some col \<Rightarrow> group_keys col)"

text \<open>The identifiers of the grouped entries that \<^verbatim>\<open>_splitByID\<close> makes of a dataset.\<close>

definition group_identifiers :: "DataObjectHolder \<Rightarrow> string \<Rightarrow> DataObjectIdentifier list" where
  "group_identifiers d h =
     map (\<lambda>k. \<lparr>id_filename = id_filename (filename d), id_id = Some k\<rparr>) (group_ids (data d) h)"

text \<open>No loaded dataset has a group id, and every grouped entry has one.\<close>

definition well_grouped :: "AppState \<Rightarrow> bool" where
  "well_grouped s =
     (list_all ungrouped (data_objects s) \<and> list_all grouped (split_data_objects s))"

subsection \<open>Example inputs\<close>

text \<open>
  The table of the example of the specification, a second table with one row, a table
  without the columns \<open>A\<close>, \<open>B\<close> and \<open>T\<close>, and a table with an \<open>ID\<close> column and no
  row.
\<close>

definition example_table :: DataFrame where
  "example_table =
     [(''A'', [Some ''1'', Some ''3'', Some ''5'']),
      (''B'', [Some ''2'', Some ''4'', Some ''6'']),
      (''T'', [Some ''0.0'', Some ''1.0'', Some ''0.0'']),
      (''ID'', [Some ''g1'', Some ''g1'', Some ''g2''])]"

definition second_table :: DataFrame where
  "second_table = [(''A'', [Some ''1'']), (''B'', [Some ''4'']), (''T'', [Some ''0.5''])]"

definition other_table :: DataFrame where
  "other_table = [(''X'', [Some ''1'']), (''Y'', [Some ''2''])]"

definition empty_table :: DataFrame where
  "empty_table = [(''ID'', [])]"

text \<open>
  A state with one listener, the roles \<open>A\<close>, \<open>B\<close> and \<open>T\<close> and the ranges of the
  example, and no dataset; the same state after the files \<^verbatim>\<open>a.csv\<close> and \<^verbatim>\<open>b.csv\<close>
  were added; and that state after the user has unticked \<^verbatim>\<open>a.csv\<close>.
\<close>

definition configured_state :: AppState where
  "configured_state =
     set_y_range
       (set_x_range
          (set_t_header (set_y_header (set_x_header (addDataListener init_state 0) ''A'') ''B'')
             ''T'')
          ''1,3,5'')
       ''2, 4, 6''"

definition loaded_state :: AppState where
  "loaded_state =
     fst (addDataObject (fst (addDataObject configured_state ''/data/a.csv'' example_table))
            ''/data/b.csv'' second_table)"

definition unticked_state :: AppState where
  "unticked_state =
     loaded_state\<lparr>data_objects :=
       (data_objects loaded_state)[0 := setSelected (data_objects loaded_state ! 0) False]\<rparr>"

text \<open>
  The configured state after a file without the three columns was added, and a new
  state after a file whose \<open>ID\<close> column has no row was added.
\<close>

definition missing_column_state :: AppState where
  "missing_column_state = fst (addDataObject configured_state ''c.csv'' other_table)"

definition empty_group_state :: AppState where
  "empty_group_state = fst (addDataObject init_state ''e.csv'' empty_table)"

text \<open>
  The configured state after \<^verbatim>\<open>b.csv\<close> alone was added, and a run that adds
  \<^verbatim>\<open>a.csv\<close>, groups by \<open>ID\<close> and adds \<^verbatim>\<open>b.csv\<close>, which has no such column.
\<close>

definition reversed_state :: AppState where
  "reversed_state = fst (addDataObject configured_state ''/data/b.csv'' second_table)"

definition example_run :: "operation list" where
  "example_run =
     [AddDataObject ''/data/a.csv'' example_table, AddSplitByID ''ID'',
      AddDataObject ''/data/b.csv'' second_table]"

text \<open>
  A new state after the three roles were chosen, its ranges never edited; and the same
  state after both range fields were edited and emptied again, so that the last calls
  were \<^verbatim>\<open>set_x_range("")\<close> and \<^verbatim>\<open>set_y_range("")\<close>.
\<close>

definition roles_state :: AppState where
  "roles_state = set_t_header (set_y_header (set_x_header init_state ''A'') ''B'') ''T''"

definition emptied_ranges_state :: AppState where
  "emptied_ranges_state = set_y_range (set_x_range roles_state []) []"

text \<open>A controller on a state, with both listeners wired.\<close>

definition control_of :: "AppState \<Rightarrow> AppControl" where
  "control_of s = \<lparr>state = s, plot_listener = Some 1, measure_listener = Some 2, resets = []\<rparr>"

section \<open>Properties\<close>

subsection \<open>The example states\<close>

lemma basename_a: "basename ''/data/a.csv'' = ''a.csv''"
  by (simp add: basename_def rfind_def)

lemma basename_b: "basename ''/data/b.csv'' = ''b.csv''"
  by (simp add: basename_def rfind_def)

lemma configured_state_eq:
  "configured_state =
     \<lparr>data_objects = [], split_data_objects = [], split_by_id = None,
      y_header = Some ''B'', x_header = Some ''A'', t_header = Some ''T'',
      x_range = [''1'', ''3'', ''5''], y_range = [''2'', ''4'', ''6''],
      matpltlib_fig = None, matpltlib_ax = None, data_object_listeners = [0]\<rparr>"
  by (simp add: configured_state_def init_state_def addDataListener_def set_x_header_def
      set_y_header_def set_t_header_def set_x_range_def set_y_range_def strip_def is_space_def)

lemma loaded_state_eq:
  "loaded_state =
     \<lparr>data_objects =
        [\<lparr>filename = \<lparr>id_filename = ''a.csv'', id_id = None\<rparr>,
          headers = [''A'', ''B'', ''T'', ''ID''], data = example_table, selected = True\<rparr>,
         \<lparr>filename = \<lparr>id_filename = ''b.csv'', id_id = None\<rparr>,
          headers = [''A'', ''B'', ''T''], data = second_table, selected = True\<rparr>],
      split_data_objects = [], split_by_id = None,
      y_header = Some ''B'', x_header = Some ''A'', t_header = Some ''T'',
      x_range = [''1'', ''3'', ''5''], y_range = [''2'', ''4'', ''6''],
      matpltlib_fig = None, matpltlib_ax = None, data_object_listeners = [0]\<rparr>"
  by (simp add: loaded_state_def configured_state_eq addDataObject_def Let_def truthy_def
      basename_a basename_b keys_def example_table_def second_table_def)


subsection \<open>Parsing an axis range\<close>

lemma split_not_Nil: "split sep s \<noteq> []"
  by (induction s) (auto split: list.splits)

lemma length_split: "length (split sep s) = Suc (count_list s sep)"
  by (induction s) (auto split: list.splits simp: split_not_Nil)

lemma join_Cons: "ps \<noteq> [] \<Longrightarrow> join sep (p # ps) = p @ sep @ join sep ps"
  by (cases ps) auto

lemma join_split: "join [sep] (split sep s) = s"
proof (induction s)
  case Nil
  show ?case by simp
next
  case (Cons c cs)
  show ?case
  proof (cases "c = sep")
    case True
    with Cons show ?thesis by (simp add: join_Cons split_not_Nil)
  next
    case False
    obtain t ts where ts: "split sep cs = t # ts"
      using split_not_Nil [of sep cs] by (cases "split sep cs") auto
    with Cons False show ?thesis by (cases ts) auto
  qed
qed

lemma split_no_sep: "list_all (\<lambda>p. sep \<notin> set p) (split sep s)"
  by (induction s) (auto split: list.splits)

lemma strip_Nil: "strip [] = []"
  by (simp add: strip_def)

lemma strip_prefix: "\<exists>b. dropWhile is_space s = strip s @ b"
proof -
  let ?m = "dropWhile is_space s"
  have "rev (rev ?m) = rev (takeWhile is_space (rev ?m) @ dropWhile is_space (rev ?m))"
    by (simp only: takeWhile_dropWhile_id)
  then have "?m = strip s @ rev (takeWhile is_space (rev ?m))"
    unfolding strip_def by (simp only: rev_rev_ident rev_append)
  then show ?thesis by blast
qed

lemma strip_ends:
  "strip s = [] \<or> (\<not> is_space (hd (strip s)) \<and> \<not> is_space (last (strip s)))"
proof (cases "strip s = []")
  case True
  then show ?thesis by simp
next
  case False
  let ?m = "dropWhile is_space s"
  let ?r = "dropWhile is_space (rev ?m)"
  from False have r: "?r \<noteq> []" by (simp add: strip_def)
  then have "\<not> is_space (hd ?r)" by (rule hd_dropWhile)
  then have l: "\<not> is_space (last (strip s))" using r by (simp add: strip_def last_rev)
  have m: "?m \<noteq> []"
  proof
    assume e: "?m = []"
    have "?r = []" by (simp only: e rev.simps dropWhile.simps)
    with r show False by contradiction
  qed
  then have hm: "\<not> is_space (hd ?m)" by (rule hd_dropWhile)
  obtain b where "?m = strip s @ b" using strip_prefix by blast
  with False have "hd ?m = hd (strip s)" by (metis hd_append2)
  with hm l show ?thesis by simp
qed

lemma list_all_strip_ends:
  "list_all (\<lambda>t. t = [] \<or> (\<not> is_space (hd t) \<and> \<not> is_space (last t))) (map strip ps)"
  by (induction ps) (simp_all add: strip_ends)

text \<open>
  What \<^verbatim>\<open>set_x_range\<close> and \<^verbatim>\<open>set_y_range\<close> store for every text: the tokens of the
  text, trimmed. The tokens are the pieces between the commas, which joined by commas
  give the text back and hold no comma; there is one more of them than there are
  commas; no stored token starts or ends with whitespace.
\<close>

lemma set_range_tokens:
  "x_range (set_x_range s text) = map strip (split (CHR '','') text) \<and>
   y_range (set_y_range s text) = map strip (split (CHR '','') text) \<and>
   join '','' (split (CHR '','') text) = text \<and>
   list_all (\<lambda>p. CHR '','' \<notin> set p) (split (CHR '','') text) \<and>
   length (x_range (set_x_range s text)) = Suc (count_list text (CHR '','')) \<and>
   length (y_range (set_y_range s text)) = Suc (count_list text (CHR '','')) \<and>
   list_all (\<lambda>t. t = [] \<or> (\<not> is_space (hd t) \<and> \<not> is_space (last t)))
     (x_range (set_x_range s text)) \<and>
   list_all (\<lambda>t. t = [] \<or> (\<not> is_space (hd t) \<and> \<not> is_space (last t)))
     (y_range (set_y_range s text))"
  by (simp add: set_x_range_def set_y_range_def join_split split_no_sep
      length_split list_all_strip_ends)

lemma set_range_examples:
  "x_range (set_x_range init_state '' 1, 2 ,3'') = [''1'', ''2'', ''3'']"
  "y_range (set_y_range init_state '' a b ,'') = [''a b'', []]"
  "x_range (set_x_range init_state [CHR 0xA0, CHR ''1'', CHR '','', CHR ''2'', CHR 0x85]) =
     [''1'', ''2'']"
  by (simp_all add: set_x_range_def set_y_range_def strip_def is_space_def)

lemma set_range_not_Nil:
  "x_range (set_x_range s text) \<noteq> []" "y_range (set_y_range s text) \<noteq> []"
  by (simp_all add: set_x_range_def set_y_range_def split_not_Nil)

subsection \<open>Reading a file\<close>

lemma splitext_data_xls: "splitext ''data.xls'' = (''data'', ''.xls'')"
  by (simp add: splitext_def rfind_def)

lemma splitext_data_xyz: "splitext ''data.xyz'' = (''data'', ''.xyz'')"
  by (simp add: splitext_def rfind_def)

lemma supported_extensions: "join '', '' (map fst file_readers) = ''.csv, .traj, .tsv, xls''"
  by (simp add: file_readers_def)

lemma read_file_unsupported:
  "map_of file_readers (snd (splitext file_path)) = None \<Longrightarrow>
   read_file pd_read c file_path =
     (c, Inl (AppError (''StateSpaceGridApp can't handle file of extension type '' @
                        snd (splitext file_path) @
                        ''. Please use one of .csv, .traj, .tsv, xls'')))"
  by (simp add: read_file_def Let_def supported_extensions del: append.simps)

text \<open>
  C2 fails on the code. The Excel reader is registered under \<^verbatim>\<open>'xls'\<close>, without the
  dot that \<^verbatim>\<open>os.path.splitext\<close> keeps and that the three other readers have in their
  keys. For every path whose extension is \<^verbatim>\<open>.xls\<close>, \<^verbatim>\<open>read_file\<close> finds no reader
  and raises the error for an unsupported extension, whatever the parser would return,
  and \<^verbatim>\<open>canHandle\<close> is false for the extension of the path; it is true for
  \<^verbatim>\<open>.csv\<close>, \<^verbatim>\<open>.traj\<close>, \<^verbatim>\<open>.tsv\<close> and for \<^verbatim>\<open>xls\<close>, which no path has as its
  extension.
\<close>

theorem read_file_xls_unsupported:
  "snd (splitext file_path) = ''.xls'' \<Longrightarrow>
   read_file pd_read c file_path =
     (c, Inl (AppError
        ''StateSpaceGridApp can't handle file of extension type .xls. Please use one of .csv, .traj, .tsv, xls'')) \<and>
   \<not> canHandle (snd (splitext file_path)) \<and>
   canHandle ''.csv'' \<and> canHandle ''.traj'' \<and> canHandle ''.tsv'' \<and> canHandle ''xls''"
proof -
  assume e: "snd (splitext file_path) = ''.xls''"
  have n: "map_of file_readers (snd (splitext file_path)) = None"
    by (simp add: e file_readers_def)
  have r: "read_file pd_read c file_path =
     (c, Inl (AppError
        ''StateSpaceGridApp can't handle file of extension type .xls. Please use one of .csv, .traj, .tsv, xls''))"
    using read_file_unsupported [OF n, of pd_read c] by (simp add: e)
  have h: "\<not> canHandle (snd (splitext file_path))"
    by (simp add: canHandle_def n)
  have k: "canHandle ''.csv'' \<and> canHandle ''.traj'' \<and> canHandle ''.tsv'' \<and> canHandle ''xls''"
    by (simp add: canHandle_def file_readers_def)
  from r h k show ?thesis by simp
qed

theorem read_file_xls_unsupported_witness:
  "snd (splitext ''data.xls'') = ''.xls'' \<and>
   read_file (\<lambda>r p. Inr example_table) init_control ''data.xls'' =
     (init_control, Inl (AppError
        ''StateSpaceGridApp can't handle file of extension type .xls. Please use one of .csv, .traj, .tsv, xls'')) \<and>
   \<not> canHandle (snd (splitext ''data.xls''))"
proof -
  have e: "snd (splitext ''data.xls'') = ''.xls''" by (simp add: splitext_data_xls)
  from read_file_xls_unsupported [OF e, of "\<lambda>r p. Inr example_table" init_control] e
  show ?thesis by simp
qed

text \<open>
  C8. For every path whose extension has no registered reader, \<^verbatim>\<open>read_file\<close> raises
  the \<^verbatim>\<open>AppError\<close> whose message names the extension and lists the registered
  extensions, \<^verbatim>\<open>.csv, .traj, .tsv, xls\<close>, and the controller with its state, so the
  datasets and the grouped datasets, is as it was before the call.
\<close>

theorem read_file_unsupported_extension:
  "\<not> canHandle (snd (splitext file_path)) \<Longrightarrow>
   read_file pd_read c file_path =
     (c, Inl (AppError (''StateSpaceGridApp can't handle file of extension type '' @
                        snd (splitext file_path) @
                        ''. Please use one of '' @ join '', '' (map fst file_readers)))) \<and>
   join '', '' (map fst file_readers) = ''.csv, .traj, .tsv, xls'' \<and>
   data_objects (state (fst (read_file pd_read c file_path))) = data_objects (state c) \<and>
   split_data_objects (state (fst (read_file pd_read c file_path))) =
     split_data_objects (state c)"
proof -
  assume "\<not> canHandle (snd (splitext file_path))"
  then have n: "map_of file_readers (snd (splitext file_path)) = None"
    by (simp add: canHandle_def)
  show ?thesis
    using read_file_unsupported [OF n, of pd_read c]
    by (simp add: supported_extensions del: append.simps)
qed

theorem read_file_unsupported_extension_witness:
  "\<not> canHandle (snd (splitext ''data.xyz'')) \<and>
   read_file (\<lambda>r p. Inr example_table) init_control ''data.xyz'' =
     (init_control, Inl (AppError
        ''StateSpaceGridApp can't handle file of extension type .xyz. Please use one of .csv, .traj, .tsv, xls'')) \<and>
   data_objects (state (fst (read_file (\<lambda>r p. Inr example_table) init_control ''data.xyz''))) = []"
proof -
  have h: "\<not> canHandle (snd (splitext ''data.xyz''))"
    by (simp add: splitext_data_xyz canHandle_def file_readers_def)
  from read_file_unsupported_extension [OF h, of "\<lambda>r p. Inr example_table" init_control] h
  show ?thesis by (simp add: splitext_data_xyz init_control_def init_state_def)
qed

subsection \<open>Reset\<close>

lemma update_no_data:
  "getDataObjects s = [] \<Longrightarrow> update s = Inr (map (\<lambda>l. (l, [])) (data_object_listeners s))"
  by (simp add: update_def py_sorted_def)

text \<open>
  C6. After \<^verbatim>\<open>reset\<close> the effective datasets are empty, as are both collections, the
  grouping key and the three column roles are \<^verbatim>\<open>None\<close>, every registered listener has
  been called once with the empty list, and the two ranges and the listeners are what
  they were.
\<close>

theorem reset_clears_data_keeps_ranges:
  "getDataObjects (fst (reset s)) = [] \<and>
   data_objects (fst (reset s)) = [] \<and>
   split_data_objects (fst (reset s)) = [] \<and>
   split_by_id (fst (reset s)) = None \<and>
   x_header (fst (reset s)) = None \<and>
   y_header (fst (reset s)) = None \<and>
   t_header (fst (reset s)) = None \<and>
   snd (reset s) = Inr (map (\<lambda>listener. (listener, [])) (data_object_listeners s)) \<and>
   x_range (fst (reset s)) = x_range s \<and>
   y_range (fst (reset s)) = y_range s \<and>
   data_object_listeners (fst (reset s)) = data_object_listeners s"
  by (simp add: reset_def Let_def getDataObjects_def update_no_data)

theorem reset_clears_data_keeps_ranges_witness:
  "getDataObjects loaded_state \<noteq> [] \<and>
   getDataObjects (fst (reset loaded_state)) = [] \<and>
   snd (reset loaded_state) = Inr [(0, [])] \<and>
   x_header (fst (reset loaded_state)) = None \<and>
   x_range (fst (reset loaded_state)) = [''1'', ''3'', ''5''] \<and>
   y_range (fst (reset loaded_state)) = [''2'', ''4'', ''6'']"
  using reset_clears_data_keeps_ranges [of loaded_state]
  by (simp add: loaded_state_eq getDataObjects_def)

subsection \<open>Computing trajectories\<close>

lemma astype_float_error: "astype_float to_float vs = Inl e \<Longrightarrow> \<exists>v. e = ValueError v"
  by (induction vs arbitrary: e) (auto split: option.splits sum.splits)

lemma astype_float_fails:
  "astype_float to_float vs = Inr xs \<Longrightarrow> list_all (\<lambda>v. to_float v \<noteq> None) vs"
  by (induction vs arbitrary: xs) (auto split: option.splits sum.splits)

lemma astype_float_ok:
  "list_all (\<lambda>v. to_float v \<noteq> None) vs \<Longrightarrow> \<exists>xs. astype_float to_float vs = Inr xs"
  by (induction vs) auto

lemma make_trajectory_error:
  "make_trajectory to_float s xh yh th d = Inl e \<Longrightarrow> e \<noteq> AppError m"
  by (auto simp: make_trajectory_def getitem_def split: option.splits sum.splits
      dest: astype_float_error)

lemma make_trajectories_error:
  "make_trajectories to_float s xh yh th ds = Inl e \<Longrightarrow> e \<noteq> AppError m"
  by (induction ds arbitrary: e)
     (auto split: if_splits sum.splits dest: make_trajectory_error)

lemma make_trajectory_ok:
  "plottable to_float xh yh th d \<Longrightarrow> \<exists>t. make_trajectory to_float s xh yh th d = Inr t"
  using astype_float_ok [of to_float]
  by (fastforce simp: plottable_def has_column_def make_trajectory_def getitem_def
      split: option.splits)

lemma length_make_trajectories:
  "make_trajectories to_float s xh yh th ds = Inr ts \<Longrightarrow>
   length ts = length (filter selected ds)"
  by (induction ds arbitrary: ts) (auto split: if_splits sum.splits)

lemma make_trajectories_ok:
  "list_all (plottable to_float xh yh th) (filter selected ds) \<Longrightarrow>
   \<exists>ts. make_trajectories to_float s xh yh th ds = Inr ts"
proof (induction ds)
  case Nil
  show ?case by simp
next
  case (Cons d ds)
  show ?case
  proof (cases "selected d")
    case True
    with Cons.prems have "plottable to_float xh yh th d" by simp
    then obtain t where t: "make_trajectory to_float s xh yh th d = Inr t"
      using make_trajectory_ok by blast
    from True Cons obtain ts where "make_trajectories to_float s xh yh th ds = Inr ts"
      by auto
    with True t show ?thesis by simp
  next
    case False
    with Cons show ?thesis by simp
  qed
qed

lemma make_trajectory_not_plottable:
  assumes np: "\<not> plottable to_float xh yh th d"
  shows "\<exists>e. make_trajectory to_float s xh yh th d = Inl e \<and>
       (e = KeyError xh \<or> e = KeyError yh \<or> e = KeyError th \<or> (\<exists>v. e = ValueError v))"
proof (cases "map_of (data d) xh")
  case None
  then show ?thesis by (simp add: make_trajectory_def getitem_def)
next
  case x: (Some xs)
  show ?thesis
  proof (cases "map_of (data d) yh")
    case None
    with x show ?thesis by (simp add: make_trajectory_def getitem_def)
  next
    case y: (Some ys)
    show ?thesis
    proof (cases "map_of (data d) th")
      case None
      with x y show ?thesis by (simp add: make_trajectory_def getitem_def)
    next
      case t: (Some ts)
      from np x y t have "\<not> list_all (\<lambda>v. to_float v \<noteq> None) (dropna ts)"
        by (simp add: plottable_def has_column_def)
      then obtain e where "astype_float to_float (dropna ts) = Inl e"
        using astype_float_ok [of to_float "dropna ts"]
        by (cases "astype_float to_float (dropna ts)") (auto dest: astype_float_fails)
      moreover from this obtain v where "e = ValueError v"
        using astype_float_error by blast
      ultimately show ?thesis
        using x y t by (simp add: make_trajectory_def getitem_def)
    qed
  qed
qed

lemma make_trajectories_not_plottable:
  "\<not> list_all (plottable to_float xh yh th) (filter selected ds) \<Longrightarrow>
   \<exists>e. make_trajectories to_float s xh yh th ds = Inl e \<and>
       (e = KeyError xh \<or> e = KeyError yh \<or> e = KeyError th \<or> (\<exists>v. e = ValueError v))"
proof (induction ds)
  case Nil
  then show ?case by simp
next
  case (Cons d ds)
  show ?case
  proof (cases "selected d")
    case False
    with Cons show ?thesis by simp
  next
    case True
    show ?thesis
    proof (cases "plottable to_float xh yh th d")
      case False
      from make_trajectory_not_plottable [OF False, of s] True show ?thesis by auto
    next
      case p: True
      then obtain t where t: "make_trajectory to_float s xh yh th d = Inr t"
        using make_trajectory_ok by blast
      from p True Cons.prems
      have "\<not> list_all (plottable to_float xh yh th) (filter selected ds)" by simp
      then obtain e where "make_trajectories to_float s xh yh th ds = Inl e"
        and "e = KeyError xh \<or> e = KeyError yh \<or> e = KeyError th \<or> (\<exists>v. e = ValueError v)"
        using Cons.IH by blast
      with True t show ?thesis by simp
    qed
  qed
qed

lemma make_trajectories_none_selected:
  "filter selected ds = [] \<Longrightarrow> make_trajectories to_float s xh yh th ds = Inr []"
  by (induction ds) (auto split: if_splits)

lemma getTrajectories_AppError_iff:
  "(\<exists>m. getTrajectories to_float c = Inl (AppError m)) \<longleftrightarrow>
   (x_header (state c) = None \<or> y_header (state c) = None \<or> t_header (state c) = None \<or>
    x_range (state c) = [] \<or> y_range (state c) = [])"
  by (auto simp: getTrajectories_def split: option.splits dest: make_trajectories_error)

lemma getTrajectories_configured:
  "x_header (state c) = Some xh \<Longrightarrow> y_header (state c) = Some yh \<Longrightarrow>
   t_header (state c) = Some th \<Longrightarrow> x_range (state c) \<noteq> [] \<Longrightarrow> y_range (state c) \<noteq> [] \<Longrightarrow>
   getTrajectories to_float c =
     make_trajectories to_float (state c) xh yh th (getDataObjects (state c))"
  by (simp add: getTrajectories_def)

text \<open>
  C4, as the code has it. \<^verbatim>\<open>getTrajectories\<close> raises an \<^verbatim>\<open>AppError\<close>, the
  configuration error, if and only if one of the x, y and time roles is \<^verbatim>\<open>None\<close> or
  one of the two ranges is empty. When the three roles are set, both ranges are not
  empty, and every selected effective dataset has the three columns and times that
  are numbers, it returns a list with one trajectory for each selected effective
  dataset. When the three roles are set, both ranges are not empty, and some selected
  effective dataset lacks one of the columns or has a time that is no number, it
  raises the \<^verbatim>\<open>KeyError\<close> of a role's column or a \<^verbatim>\<open>ValueError\<close>, and returns no
  list.
\<close>

theorem getTrajectories_configuration_error:
  "((\<exists>m. getTrajectories to_float c = Inl (AppError m)) \<longleftrightarrow>
    (x_header (state c) = None \<or> y_header (state c) = None \<or> t_header (state c) = None \<or>
     x_range (state c) = [] \<or> y_range (state c) = [])) \<and>
   (x_header (state c) = Some xh \<and> y_header (state c) = Some yh \<and>
    t_header (state c) = Some th \<and> x_range (state c) \<noteq> [] \<and> y_range (state c) \<noteq> [] \<and>
    list_all (plottable to_float xh yh th) (filter selected (getDataObjects (state c))) \<longrightarrow>
    (\<exists>ts. getTrajectories to_float c = Inr ts \<and>
          length ts = length (filter selected (getDataObjects (state c))))) \<and>
   (x_header (state c) = Some xh \<and> y_header (state c) = Some yh \<and>
    t_header (state c) = Some th \<and> x_range (state c) \<noteq> [] \<and> y_range (state c) \<noteq> [] \<and>
    \<not> list_all (plottable to_float xh yh th) (filter selected (getDataObjects (state c))) \<longrightarrow>
    (\<exists>e. getTrajectories to_float c = Inl e \<and>
         (e = KeyError xh \<or> e = KeyError yh \<or> e = KeyError th \<or> (\<exists>v. e = ValueError v))))"
proof (intro conjI impI)
  show "(\<exists>m. getTrajectories to_float c = Inl (AppError m)) \<longleftrightarrow>
    (x_header (state c) = None \<or> y_header (state c) = None \<or> t_header (state c) = None \<or>
     x_range (state c) = [] \<or> y_range (state c) = [])"
    by (rule getTrajectories_AppError_iff)
next
  assume a: "x_header (state c) = Some xh \<and> y_header (state c) = Some yh \<and>
    t_header (state c) = Some th \<and> x_range (state c) \<noteq> [] \<and> y_range (state c) \<noteq> [] \<and>
    list_all (plottable to_float xh yh th) (filter selected (getDataObjects (state c)))"
  then have g: "getTrajectories to_float c =
     make_trajectories to_float (state c) xh yh th (getDataObjects (state c))"
    by (simp add: getTrajectories_configured)
  from a obtain ts where
    ts: "make_trajectories to_float (state c) xh yh th (getDataObjects (state c)) = Inr ts"
    using make_trajectories_ok by blast
  then have "length ts = length (filter selected (getDataObjects (state c)))"
    by (rule length_make_trajectories)
  with g ts show "\<exists>ts. getTrajectories to_float c = Inr ts \<and>
          length ts = length (filter selected (getDataObjects (state c)))"
    by simp
next
  assume a: "x_header (state c) = Some xh \<and> y_header (state c) = Some yh \<and>
    t_header (state c) = Some th \<and> x_range (state c) \<noteq> [] \<and> y_range (state c) \<noteq> [] \<and>
    \<not> list_all (plottable to_float xh yh th) (filter selected (getDataObjects (state c)))"
  then have g: "getTrajectories to_float c =
     make_trajectories to_float (state c) xh yh th (getDataObjects (state c))"
    by (simp add: getTrajectories_configured)
  from a have
    "\<not> list_all (plottable to_float xh yh th) (filter selected (getDataObjects (state c)))"
    by simp
  from make_trajectories_not_plottable [OF this, of "state c"] g
  show "\<exists>e. getTrajectories to_float c = Inl e \<and>
         (e = KeyError xh \<or> e = KeyError yh \<or> e = KeyError th \<or> (\<exists>v. e = ValueError v))"
    by simp
qed

lemma plottable_example: "data d = example_table \<Longrightarrow> plottable Some ''A'' ''B'' ''T'' d"
  by (simp add: plottable_def has_column_def example_table_def dropna_def List.map_filter_simps)

lemma plottable_second: "data d = second_table \<Longrightarrow> plottable Some ''A'' ''B'' ''T'' d"
  by (simp add: plottable_def has_column_def second_table_def dropna_def List.map_filter_simps)

lemma missing_column_state_eq:
  "missing_column_state =
     \<lparr>data_objects =
        [\<lparr>filename = \<lparr>id_filename = ''c.csv'', id_id = None\<rparr>,
          headers = [''X'', ''Y''], data = other_table, selected = True\<rparr>],
      split_data_objects = [], split_by_id = None,
      y_header = Some ''B'', x_header = Some ''A'', t_header = Some ''T'',
      x_range = [''1'', ''3'', ''5''], y_range = [''2'', ''4'', ''6''],
      matpltlib_fig = None, matpltlib_ax = None, data_object_listeners = [0]\<rparr>"
  by (simp add: missing_column_state_def configured_state_eq addDataObject_def Let_def
      truthy_def basename_def rfind_def keys_def other_table_def)

theorem getTrajectories_configuration_error_witness:
  "(\<exists>m. getTrajectories Some init_control = Inl (AppError m)) \<and>
   x_header (state init_control) = None \<and>
   \<not> (\<exists>m. getTrajectories Some (control_of loaded_state) = Inl (AppError m)) \<and>
   (\<exists>ts. getTrajectories Some (control_of loaded_state) = Inr ts \<and> length ts = 2) \<and>
   (\<exists>e. getTrajectories Some (control_of missing_column_state) = Inl e \<and>
        (e = KeyError ''A'' \<or> e = KeyError ''B'' \<or> e = KeyError ''T'' \<or>
         (\<exists>v. e = ValueError v)))"
proof -
  have 1: "x_header (state init_control) = None"
    by (simp add: init_control_def init_state_def)
  have 2: "x_header (state (control_of loaded_state)) = Some ''A'' \<and>
    y_header (state (control_of loaded_state)) = Some ''B'' \<and>
    t_header (state (control_of loaded_state)) = Some ''T'' \<and>
    x_range (state (control_of loaded_state)) \<noteq> [] \<and>
    y_range (state (control_of loaded_state)) \<noteq> [] \<and>
    list_all (plottable Some ''A'' ''B'' ''T'')
      (filter selected (getDataObjects (state (control_of loaded_state))))"
    by (simp add: control_of_def loaded_state_eq getDataObjects_def plottable_example
        plottable_second)
  have 3: "length (filter selected (getDataObjects (state (control_of loaded_state)))) = 2"
    by (simp add: control_of_def loaded_state_eq getDataObjects_def)
  have 4: "x_header (state (control_of missing_column_state)) = Some ''A'' \<and>
    y_header (state (control_of missing_column_state)) = Some ''B'' \<and>
    t_header (state (control_of missing_column_state)) = Some ''T'' \<and>
    x_range (state (control_of missing_column_state)) \<noteq> [] \<and>
    y_range (state (control_of missing_column_state)) \<noteq> [] \<and>
    \<not> list_all (plottable Some ''A'' ''B'' ''T'')
      (filter selected (getDataObjects (state (control_of missing_column_state))))"
    by (simp add: control_of_def missing_column_state_eq getDataObjects_def plottable_def
        has_column_def other_table_def)
  from getTrajectories_configuration_error [of Some init_control] 1
    getTrajectories_configuration_error [of Some "control_of loaded_state" "''A''" "''B''" "''T''"]
    2 3
  have a: "(\<exists>m. getTrajectories Some init_control = Inl (AppError m)) \<and>
   x_header (state init_control) = None \<and>
   \<not> (\<exists>m. getTrajectories Some (control_of loaded_state) = Inl (AppError m)) \<and>
   (\<exists>ts. getTrajectories Some (control_of loaded_state) = Inr ts \<and> length ts = 2)"
    by simp
  from getTrajectories_configuration_error
    [of Some "control_of missing_column_state" "''A''" "''B''" "''T''"] 4
  have "\<exists>e. getTrajectories Some (control_of missing_column_state) = Inl e \<and>
        (e = KeyError ''A'' \<or> e = KeyError ''B'' \<or> e = KeyError ''T'' \<or>
         (\<exists>v. e = ValueError v))"
    by blast
  with a show ?thesis by blast
qed

text \<open>
  C4 as the specification states it fails in its last part: with the three roles set
  and both ranges not empty, a selected dataset without the x column makes
  \<^verbatim>\<open>getTrajectories\<close> raise \<^verbatim>\<open>KeyError\<close>, so no list is returned.
\<close>

theorem getTrajectories_missing_column_counterexample:
  "x_header (state (control_of (missing_column_state))) \<noteq> None \<and>
   y_header (state (control_of (missing_column_state))) \<noteq> None \<and>
   t_header (state (control_of (missing_column_state))) \<noteq> None \<and>
   x_range (state (control_of (missing_column_state))) \<noteq> [] \<and>
   y_range (state (control_of (missing_column_state))) \<noteq> [] \<and>
   getTrajectories Some (control_of (missing_column_state)) =
     Inl (KeyError ''A'')"
  by (simp add: missing_column_state_eq control_of_def getTrajectories_def getDataObjects_def
      make_trajectory_def getitem_def other_table_def)

subsection \<open>An emptied range field\<close>

lemma getTrajectories_range_guard:
  "x_range (state c) \<noteq> [] \<Longrightarrow> y_range (state c) \<noteq> [] \<Longrightarrow>
   getTrajectories to_float c \<noteq>
     Inl (AppError
       ''Set the x and y range as a comma separated list in the for '1,2,3' or 'a,b,c' before plotting'')"
  by (auto simp: getTrajectories_def split: option.splits dest: make_trajectories_error)

lemma roles_state_eq:
  "roles_state =
     \<lparr>data_objects = [], split_data_objects = [], split_by_id = None,
      y_header = Some ''B'', x_header = Some ''A'', t_header = Some ''T'',
      x_range = [], y_range = [],
      matpltlib_fig = None, matpltlib_ax = None, data_object_listeners = []\<rparr>"
  by (simp add: roles_state_def init_state_def set_x_header_def set_y_header_def
      set_t_header_def)

text \<open>
  C1 fails on the code. \<^verbatim>\<open>set_x_range\<close> and \<^verbatim>\<open>set_y_range\<close> called with the empty
  string store the list that holds the empty string, not the empty list. So once the
  ranges have been set, with whatever texts, \<^verbatim>\<open>getTrajectories\<close> never raises the
  error that asks for the ranges: with the three roles chosen, it raises this error
  while the range fields were never edited, and after both fields were emptied it
  passes the check and returns, here the empty list as no dataset is loaded.
\<close>

theorem set_range_empty_text_passes_guard:
  "x_range (set_x_range s []) = [[]] \<and>
   y_range (set_y_range s []) = [[]] \<and>
   getTrajectories to_float (c\<lparr>state := set_y_range (set_x_range (state c) tx) ty\<rparr>) \<noteq>
     Inl (AppError
       ''Set the x and y range as a comma separated list in the for '1,2,3' or 'a,b,c' before plotting'') \<and>
   getTrajectories Some (control_of roles_state) =
     Inl (AppError
       ''Set the x and y range as a comma separated list in the for '1,2,3' or 'a,b,c' before plotting'') \<and>
   x_range emptied_ranges_state = [[]] \<and>
   y_range emptied_ranges_state = [[]] \<and>
   getTrajectories Some (control_of emptied_ranges_state) = Inr []"
proof (intro conjI)
  show "x_range (set_x_range s []) = [[]]" "y_range (set_y_range s []) = [[]]"
    by (simp_all add: set_x_range_def set_y_range_def strip_Nil)
  have "x_range (state (c\<lparr>state := set_y_range (set_x_range (state c) tx) ty\<rparr>)) \<noteq> []"
    by (simp add: set_x_range_def set_y_range_def split_not_Nil)
  moreover
  have "y_range (state (c\<lparr>state := set_y_range (set_x_range (state c) tx) ty\<rparr>)) \<noteq> []"
    by (simp add: set_y_range_def split_not_Nil)
  ultimately
  show "getTrajectories to_float (c\<lparr>state := set_y_range (set_x_range (state c) tx) ty\<rparr>) \<noteq>
     Inl (AppError
       ''Set the x and y range as a comma separated list in the for '1,2,3' or 'a,b,c' before plotting'')"
    by (rule getTrajectories_range_guard)
  show "getTrajectories Some (control_of roles_state) =
     Inl (AppError
       ''Set the x and y range as a comma separated list in the for '1,2,3' or 'a,b,c' before plotting'')"
    by (simp add: getTrajectories_def control_of_def roles_state_eq)
  show "x_range emptied_ranges_state = [[]]" "y_range emptied_ranges_state = [[]]"
    by (simp_all add: emptied_ranges_state_def set_x_range_def set_y_range_def strip_Nil)
  show "getTrajectories Some (control_of emptied_ranges_state) = Inr []"
    by (simp add: getTrajectories_def control_of_def emptied_ranges_state_def roles_state_eq
        set_x_range_def set_y_range_def strip_Nil getDataObjects_def)
qed

subsection \<open>Exporting measures\<close>

text \<open>
  What holds of the rows in general: an export for individual trajectories that
  returns has one row for each selected effective dataset, and the ids of its rows
  are the identifiers of the first effective datasets, selected or not; a cumulative
  export that returns has one row.
\<close>

lemma measure_each_rows:
  "measure_each get_measures zs = Inr rows \<Longrightarrow> map fst rows = map (\<lambda>z. Some (fst z)) zs"
  by (induction zs arbitrary: rows) (auto split: sum.splits)

lemma export_measures_individual_rows:
  "export_measures get_measures to_float c True = Inr rows \<Longrightarrow>
   length rows = length (filter selected (getDataObjects (state c))) \<and>
   map fst rows = map Some (take (length rows) (getIDs (state c)))"
proof -
  let ?ids = "getIDs (state c)"
  assume a: "export_measures get_measures to_float c True = Inr rows"
  then obtain ts where ts: "getTrajectories to_float c = Inr ts"
    and m: "measure_each get_measures (zip ?ids ts) = Inr rows"
    by (auto simp: export_measures_def Let_def split: sum.splits)
  from ts have l: "length ts = length (filter selected (getDataObjects (state c)))"
    by (auto simp: getTrajectories_def split: option.splits if_splits
        dest: length_make_trajectories)
  have "length (filter selected (getDataObjects (state c))) \<le> length ?ids"
    by (simp add: getIDs_def)
  with l have le: "length ts \<le> length ?ids" by simp
  from m have r: "map fst rows = map (\<lambda>z. Some (fst z)) (zip ?ids ts)"
    by (rule measure_each_rows)
  then have "length (map fst rows) = length (map (\<lambda>z. Some (fst z)) (zip ?ids ts))"
    by (rule arg_cong)
  with le have n: "length rows = length ts" by simp
  have "map (\<lambda>z. Some (fst z)) (zip ?ids ts) = map Some (map fst (zip ?ids ts))"
    by simp
  also have "map fst (zip ?ids ts) = take (min (length ?ids) (length ts)) ?ids"
    by (rule map_fst_zip_take)
  also from le have "min (length ?ids) (length ts) = length ts" by simp
  finally have "map (\<lambda>z. Some (fst z)) (zip ?ids ts) = map Some (take (length ts) ?ids)" .
  with r n l show ?thesis by simp
qed

lemma export_measures_cumulative_rows:
  "export_measures get_measures to_float c False = Inr rows \<Longrightarrow> length rows = 1"
  by (auto simp: export_measures_def Let_def split: sum.splits)

lemma unticked_state_eq:
  "unticked_state =
     \<lparr>data_objects =
        [\<lparr>filename = \<lparr>id_filename = ''a.csv'', id_id = None\<rparr>,
          headers = [''A'', ''B'', ''T'', ''ID''], data = example_table, selected = False\<rparr>,
         \<lparr>filename = \<lparr>id_filename = ''b.csv'', id_id = None\<rparr>,
          headers = [''A'', ''B'', ''T''], data = second_table, selected = True\<rparr>],
      split_data_objects = [], split_by_id = None,
      y_header = Some ''B'', x_header = Some ''A'', t_header = Some ''T'',
      x_range = [''1'', ''3'', ''5''], y_range = [''2'', ''4'', ''6''],
      matpltlib_fig = None, matpltlib_ax = None, data_object_listeners = [0]\<rparr>"
  by (simp add: unticked_state_def loaded_state_eq setSelected_def)

text \<open>
  C3 fails on the code. \<^verbatim>\<open>export_measures\<close> zips the identifiers of all effective
  datasets with the trajectories of the selected ones. With \<^verbatim>\<open>a.csv\<close> unticked and
  \<^verbatim>\<open>b.csv\<close> selected, the only selected dataset is \<^verbatim>\<open>b.csv\<close> and the only
  trajectory is that of \<^verbatim>\<open>b.csv\<close>, and the one exported row carries the id
  \<^verbatim>\<open>a.csv\<close> with the measures of this trajectory. The measures are taken to be the
  trajectories measured, to tell them apart.
\<close>

theorem export_measures_id_of_unselected:
  "map (\<lambda>d. str_of (filename d)) (filter selected (getDataObjects unticked_state)) = [''b.csv''] \<and>
   getTrajectories Some (control_of unticked_state) =
     Inr [Trajectory [''1'', ''3'', ''5''] [''2'', ''4'', ''6''] [(''1'', ''4'')] [''0.5'']] \<and>
   export_measures (\<lambda>ts. Inr ts) Some (control_of unticked_state) True =
     Inr [(Some ''a.csv'',
           [Trajectory [''1'', ''3'', ''5''] [''2'', ''4'', ''6''] [(''1'', ''4'')] [''0.5'']])]"
  by (simp add: unticked_state_eq control_of_def export_measures_def getTrajectories_def
      getDataObjects_def getIDs_def str_of_def make_trajectory_def getitem_def
      second_table_def dropna_def List.map_filter_simps)

subsection \<open>Plotting\<close>

text \<open>
  C7, as the code has it. \<^verbatim>\<open>plot\<close> computes the trajectories before it looks at the
  listeners. When the three roles are set, both ranges are not empty, no effective
  dataset is selected and both listeners are wired, it calls the plot listener once,
  with the empty list and the x and y headers, and does not call the measure listener.
  When the trajectories were computed and the plot listener is not wired, it raises
  the error of the missing plot function and calls nothing. When computing the
  trajectories raises, \<^verbatim>\<open>plot\<close> raises that exception and calls nothing, wired or
  not.
\<close>

theorem plot_calls:
  "(x_header (state c) = Some xh \<and> y_header (state c) = Some yh \<and>
    t_header (state c) = Some th \<and> x_range (state c) \<noteq> [] \<and> y_range (state c) \<noteq> [] \<and>
    filter selected (getDataObjects (state c)) = [] \<and>
    plot_listener c = Some pl \<and> measure_listener c = Some ml \<longrightarrow>
    plot get_measures to_float c = ([plot_call pl [] (Some xh) (Some yh)], None)) \<and>
   (getTrajectories to_float c = Inr ts \<and> plot_listener c = None \<longrightarrow>
    plot get_measures to_float c =
      ([], Some (AppError
         ''Problem with app generation - no associated plot function for plot display''))) \<and>
   (getTrajectories to_float c = Inl e \<longrightarrow> plot get_measures to_float c = ([], Some e))"
proof (intro conjI impI)
  assume a: "x_header (state c) = Some xh \<and> y_header (state c) = Some yh \<and>
    t_header (state c) = Some th \<and> x_range (state c) \<noteq> [] \<and> y_range (state c) \<noteq> [] \<and>
    filter selected (getDataObjects (state c)) = [] \<and>
    plot_listener c = Some pl \<and> measure_listener c = Some ml"
  then have "getTrajectories to_float c = Inr []"
    by (simp add: getTrajectories_configured make_trajectories_none_selected)
  with a show "plot get_measures to_float c = ([plot_call pl [] (Some xh) (Some yh)], None)"
    by (simp add: plot_def)
next
  assume "getTrajectories to_float c = Inr ts \<and> plot_listener c = None"
  then show "plot get_measures to_float c =
      ([], Some (AppError
         ''Problem with app generation - no associated plot function for plot display''))"
    by (simp add: plot_def)
next
  assume "getTrajectories to_float c = Inl e"
  then show "plot get_measures to_float c = ([], Some e)"
    by (simp add: plot_def)
qed

lemma getTrajectories_configured_state:
  "getTrajectories Some \<lparr>state = configured_state, plot_listener = pl, measure_listener = ml,
     resets = rs\<rparr> = Inr []"
  by (simp add: getTrajectories_def configured_state_eq getDataObjects_def)

lemma getTrajectories_init_control:
  "getTrajectories Some init_control =
     Inl (AppError ''Select a value for the x header, y header and time header before plotting'')"
  by (simp add: getTrajectories_def init_control_def init_state_def)

theorem plot_calls_witness:
  "plot (\<lambda>ts. Inr ts) Some (control_of configured_state) =
     ([plot_call 1 [] (Some ''A'') (Some ''B'')], None) \<and>
   plot (\<lambda>ts. Inr ts) Some
     \<lparr>state = configured_state, plot_listener = None, measure_listener = None, resets = []\<rparr> =
     ([], Some (AppError
        ''Problem with app generation - no associated plot function for plot display'')) \<and>
   plot (\<lambda>ts. Inr ts) Some init_control =
     ([], Some (AppError
        ''Select a value for the x header, y header and time header before plotting''))"
proof -
  have 1: "x_header (state (control_of configured_state)) = Some ''A'' \<and>
    y_header (state (control_of configured_state)) = Some ''B'' \<and>
    t_header (state (control_of configured_state)) = Some ''T'' \<and>
    x_range (state (control_of configured_state)) \<noteq> [] \<and>
    y_range (state (control_of configured_state)) \<noteq> [] \<and>
    filter selected (getDataObjects (state (control_of configured_state))) = [] \<and>
    plot_listener (control_of configured_state) = Some 1 \<and>
    measure_listener (control_of configured_state) = Some 2"
    by (simp add: control_of_def configured_state_eq getDataObjects_def)
  have 2: "getTrajectories Some
     \<lparr>state = configured_state, plot_listener = None, measure_listener = None, resets = []\<rparr> =
     Inr [] \<and>
    plot_listener
     \<lparr>state = configured_state, plot_listener = None, measure_listener = None, resets = []\<rparr> =
     None"
    by (simp add: getTrajectories_configured_state)
  from plot_calls [of "control_of configured_state" "''A''" "''B''" "''T''" 1 2 "\<lambda>ts. Inr ts" Some] 1
    plot_calls [of "\<lparr>state = configured_state, plot_listener = None, measure_listener = None,
      resets = []\<rparr>" _ _ _ _ _ "\<lambda>ts. Inr ts" Some "[]"] 2
    plot_calls [of init_control _ _ _ _ _ "\<lambda>ts. Inr ts" Some _
      "AppError ''Select a value for the x header, y header and time header before plotting''"]
    getTrajectories_init_control
  show ?thesis by simp
qed

text \<open>
  C7 as the specification states it fails in its last part: on a new controller the
  plot listener is not wired, and \<^verbatim>\<open>plot\<close> raises the error of the missing roles,
  not the error of the missing plot function.
\<close>

theorem plot_unwired_unconfigured_counterexample:
  "plot_listener init_control = None \<and>
   snd (plot (\<lambda>ts. Inr ts) Some init_control) \<noteq>
     Some (AppError
        ''Problem with app generation - no associated plot function for plot display'') \<and>
   plot (\<lambda>ts. Inr ts) Some init_control =
     ([], Some (AppError
        ''Select a value for the x header, y header and time header before plotting''))"
  by (simp add: plot_def getTrajectories_init_control) (simp add: init_control_def)

subsection \<open>Grouping by a column\<close>

lemma splitByID_fields:
  "splitByID s d = Inr s' \<Longrightarrow>
   data_objects s' = data_objects s \<and> split_by_id s' = split_by_id s \<and>
   (\<exists>h. split_by_id s = Some h \<and> has_column (data d) h \<and>
     map filename (split_data_objects s') =
       map filename (split_data_objects s) @ group_identifiers d h)"
  by (auto simp: splitByID_def groupby_def has_column_def group_identifiers_def group_ids_def
      comp_def split: option.splits)

lemma splitByID_has_column:
  "split_by_id s = Some h \<Longrightarrow> has_column (data d) h \<Longrightarrow> \<exists>s'. splitByID s d = Inr s'"
  by (auto simp: splitByID_def groupby_def has_column_def split: option.splits)

lemma splitByID_grouped:
  "splitByID s d = Inr s' \<Longrightarrow> list_all grouped (split_data_objects s) \<Longrightarrow>
   list_all grouped (split_data_objects s')"
  by (auto simp: splitByID_def groupby_def grouped_def list_all_iff split: option.splits)

lemma split_each_fields:
  "split_each s ds = (s', r) \<Longrightarrow>
   data_objects s' = data_objects s \<and> split_by_id s' = split_by_id s"
proof (induction ds arbitrary: s)
  case Nil
  then show ?case by simp
next
  case (Cons d ds)
  show ?case
  proof (cases "splitByID s d")
    case (Inl e)
    with Cons.prems show ?thesis by simp
  next
    case (Inr s1)
    with Cons.prems have "split_each s1 ds = (s', r)" by simp
    then have "data_objects s' = data_objects s1 \<and> split_by_id s' = split_by_id s1"
      by (rule Cons.IH)
    with splitByID_fields [OF Inr] show ?thesis by simp
  qed
qed

lemma split_each_grouped:
  "split_each s ds = (s', r) \<Longrightarrow> list_all grouped (split_data_objects s) \<Longrightarrow>
   list_all grouped (split_data_objects s')"
proof (induction ds arbitrary: s)
  case Nil
  then show ?case by simp
next
  case (Cons d ds)
  show ?case
  proof (cases "splitByID s d")
    case (Inl e)
    with Cons.prems show ?thesis by simp
  next
    case (Inr s1)
    with Cons.prems have 1: "split_each s1 ds = (s', r)" by simp
    from Inr Cons.prems(2) have "list_all grouped (split_data_objects s1)"
      by (rule splitByID_grouped)
    with 1 show ?thesis by (rule Cons.IH)
  qed
qed

lemma split_each_has_column:
  "split_by_id s = Some h \<Longrightarrow> list_all (\<lambda>d. has_column (data d) h) ds \<Longrightarrow>
   \<exists>s'. split_each s ds = (s', None) \<and>
        map filename (split_data_objects s') =
          map filename (split_data_objects s) @ concat (map (\<lambda>d. group_identifiers d h) ds)"
proof (induction ds arbitrary: s)
  case Nil
  then show ?case by simp
next
  case (Cons d ds)
  from Cons.prems have c: "has_column (data d) h" by simp
  with Cons.prems(1) obtain s1 where s1: "splitByID s d = Inr s1"
    using splitByID_has_column by blast
  from splitByID_fields [OF s1] Cons.prems(1)
  have f: "split_by_id s1 = Some h"
    and m: "map filename (split_data_objects s1) =
       map filename (split_data_objects s) @ group_identifiers d h"
    by auto
  from Cons.prems have "list_all (\<lambda>d. has_column (data d) h) ds" by simp
  with f obtain s' where s': "split_each s1 ds = (s', None)"
    and m': "map filename (split_data_objects s') =
          map filename (split_data_objects s1) @ concat (map (\<lambda>d. group_identifiers d h) ds)"
    using Cons.IH by blast
  from s1 s' m m' show ?case by simp
qed

lemma length_group_ids: "length (group_ids df h) = distinct_values df h"
  by (simp add: group_ids_def distinct_values_def group_keys_def length_remdups_card_conv
      split: option.splits)

lemma group_ids_values:
  "map_of df h = Some col \<Longrightarrow>
   set (group_ids df h) = {v. Some v \<in> set col} \<and> distinct (group_ids df h) \<and>
   sorted (group_ids df h)"
  by (force simp: group_ids_def group_keys_def dropna_def List.map_filter_def)

lemma length_concat_group_identifiers:
  "length (concat (map (\<lambda>d. group_identifiers d h) ds)) =
   sum_list (map (\<lambda>d. distinct_values (data d) h) ds)"
  by (induction ds) (simp_all add: group_identifiers_def length_group_ids)

lemma addSplitByID_data_objects: "data_objects (fst (addSplitByID s i)) = data_objects s"
proof (cases "i = []")
  case True
  then show ?thesis by (simp add: addSplitByID_def Let_def)
next
  case False
  obtain s3 r where e: "split_each (s\<lparr>split_data_objects := [], split_by_id := Some i\<rparr>)
    (data_objects s) = (s3, r)" by (cases "split_each (s\<lparr>split_data_objects := [], split_by_id := Some i\<rparr>)
    (data_objects s)")
  from split_each_fields [OF e] have "data_objects s3 = data_objects s" by simp
  with e False show ?thesis by (cases r) (simp_all add: addSplitByID_def Let_def)
qed

lemma addSplitByID_empty:
  "split_data_objects (fst (addSplitByID s [])) = [] \<and>
   split_by_id (fst (addSplitByID s [])) = None \<and>
   getDataObjects (fst (addSplitByID s [])) = data_objects s"
  by (simp add: addSplitByID_def Let_def getDataObjects_def)

lemma addSplitByID_has_column:
  assumes "i \<noteq> []" and "list_all (\<lambda>d. has_column (data d) i) (data_objects s)"
  shows "map filename (split_data_objects (fst (addSplitByID s i))) =
           concat (map (\<lambda>d. group_identifiers d i) (data_objects s))"
    and "split_by_id (fst (addSplitByID s i)) = Some i"
proof -
  let ?s2 = "s\<lparr>split_data_objects := [], split_by_id := Some i\<rparr>"
  have "split_by_id ?s2 = Some i" by simp
  moreover from assms(2) have "list_all (\<lambda>d. has_column (data d) i) (data_objects ?s2)" by simp
  ultimately obtain s' where s': "split_each ?s2 (data_objects ?s2) = (s', None)"
    and m: "map filename (split_data_objects s') =
          map filename (split_data_objects ?s2) @
          concat (map (\<lambda>d. group_identifiers d i) (data_objects ?s2))"
    using split_each_has_column by blast
  from s' assms(1) have f: "fst (addSplitByID s i) = s'"
    by (simp add: addSplitByID_def Let_def)
  from m f show "map filename (split_data_objects (fst (addSplitByID s i))) =
           concat (map (\<lambda>d. group_identifiers d i) (data_objects s))" by simp
  from split_each_fields [OF s'] f show "split_by_id (fst (addSplitByID s i)) = Some i" by simp
qed

text \<open>
  C5, as the code has it. When the name is not empty and every loaded dataset has the
  column, \<^verbatim>\<open>addSplitByID\<close> leaves as grouped entries one entry for each dataset and
  each distinct value of the column in it that is not missing, with the file name of
  the dataset and the value as group id, in the order of the datasets; their number is
  the sum of the numbers of distinct values. The effective datasets are these grouped
  entries when there is at least one, and the loaded datasets when there is none.
  \<^verbatim>\<open>addSplitByID\<close> never changes the loaded datasets, and calling it with the empty
  name afterwards clears the grouping key and makes the loaded datasets the effective
  ones again.
\<close>

theorem addSplitByID_groups:
  "(i \<noteq> [] \<and> list_all (\<lambda>d. has_column (data d) i) (data_objects s) \<longrightarrow>
      map filename (split_data_objects (fst (addSplitByID s i))) =
        concat (map (\<lambda>d. group_identifiers d i) (data_objects s)) \<and>
      length (split_data_objects (fst (addSplitByID s i))) =
        sum_list (map (\<lambda>d. distinct_values (data d) i) (data_objects s)) \<and>
      getDataObjects (fst (addSplitByID s i)) =
        (if 0 < sum_list (map (\<lambda>d. distinct_values (data d) i) (data_objects s))
         then split_data_objects (fst (addSplitByID s i)) else data_objects s)) \<and>
   data_objects (fst (addSplitByID s i)) = data_objects s \<and>
   getDataObjects (fst (addSplitByID (fst (addSplitByID s i)) [])) = data_objects s \<and>
   split_by_id (fst (addSplitByID (fst (addSplitByID s i)) [])) = None"
proof (intro conjI impI)
  assume a: "i \<noteq> [] \<and> list_all (\<lambda>d. has_column (data d) i) (data_objects s)"
  then show m: "map filename (split_data_objects (fst (addSplitByID s i))) =
        concat (map (\<lambda>d. group_identifiers d i) (data_objects s))"
    by (simp add: addSplitByID_has_column)
  then have "length (map filename (split_data_objects (fst (addSplitByID s i)))) =
    length (concat (map (\<lambda>d. group_identifiers d i) (data_objects s)))"
    by (rule arg_cong)
  then show l: "length (split_data_objects (fst (addSplitByID s i))) =
        sum_list (map (\<lambda>d. distinct_values (data d) i) (data_objects s))"
    by (simp add: length_concat_group_identifiers)
  show "getDataObjects (fst (addSplitByID s i)) =
        (if 0 < sum_list (map (\<lambda>d. distinct_values (data d) i) (data_objects s))
         then split_data_objects (fst (addSplitByID s i)) else data_objects s)"
  proof -
    have "(split_data_objects (fst (addSplitByID s i)) \<noteq> []) =
      (0 < sum_list (map (\<lambda>d. distinct_values (data d) i) (data_objects s)))"
      using l by (metis length_greater_0_conv)
    then show ?thesis
      unfolding getDataObjects_def by (simp only: addSplitByID_data_objects)
  qed
next
  show "data_objects (fst (addSplitByID s i)) = data_objects s"
    by (rule addSplitByID_data_objects)
  show "getDataObjects (fst (addSplitByID (fst (addSplitByID s i)) [])) = data_objects s"
    by (simp add: addSplitByID_empty addSplitByID_data_objects)
  show "split_by_id (fst (addSplitByID (fst (addSplitByID s i)) [])) = None"
    by (simp add: addSplitByID_empty)
qed


lemma group_ids_example: "group_ids example_table ''A'' = [''1'', ''3'', ''5'']"
  by code_simp

lemma group_ids_second: "group_ids second_table ''A'' = [''1'']"
  by code_simp

lemma distinct_values_examples:
  "distinct_values example_table ''A'' = 3" "distinct_values second_table ''A'' = 1"
  by (simp_all flip: length_group_ids add: group_ids_example group_ids_second)

theorem addSplitByID_groups_witness:
  "''A'' \<noteq> [] \<and>
   list_all (\<lambda>d. has_column (data d) ''A'') (data_objects loaded_state) \<and>
   map filename (split_data_objects (fst (addSplitByID loaded_state ''A''))) =
     [\<lparr>id_filename = ''a.csv'', id_id = Some ''1''\<rparr>,
      \<lparr>id_filename = ''a.csv'', id_id = Some ''3''\<rparr>,
      \<lparr>id_filename = ''a.csv'', id_id = Some ''5''\<rparr>,
      \<lparr>id_filename = ''b.csv'', id_id = Some ''1''\<rparr>] \<and>
   length (split_data_objects (fst (addSplitByID loaded_state ''A''))) = 4 \<and>
   getDataObjects (fst (addSplitByID loaded_state ''A'')) =
     split_data_objects (fst (addSplitByID loaded_state ''A'')) \<and>
   getDataObjects (fst (addSplitByID (fst (addSplitByID loaded_state ''A'')) [])) =
     data_objects loaded_state"
proof -
  have h: "''A'' \<noteq> [] \<and>
    list_all (\<lambda>d. has_column (data d) ''A'') (data_objects loaded_state)"
    by (simp add: loaded_state_eq has_column_def example_table_def second_table_def)
  have g: "concat (map (\<lambda>d. group_identifiers d ''A'') (data_objects loaded_state)) =
     [\<lparr>id_filename = ''a.csv'', id_id = Some ''1''\<rparr>,
      \<lparr>id_filename = ''a.csv'', id_id = Some ''3''\<rparr>,
      \<lparr>id_filename = ''a.csv'', id_id = Some ''5''\<rparr>,
      \<lparr>id_filename = ''b.csv'', id_id = Some ''1''\<rparr>]"
    by (simp add: loaded_state_eq group_identifiers_def group_ids_example group_ids_second)
  have n: "sum_list (map (\<lambda>d. distinct_values (data d) ''A'') (data_objects loaded_state)) = 4"
    by (simp add: loaded_state_eq distinct_values_examples)
  from addSplitByID_groups [of "''A''" loaded_state] h g n show ?thesis by simp
qed

lemma empty_group_state_eq:
  "empty_group_state =
     \<lparr>data_objects =
        [\<lparr>filename = \<lparr>id_filename = ''e.csv'', id_id = None\<rparr>,
          headers = [''ID''], data = empty_table, selected = True\<rparr>],
      split_data_objects = [], split_by_id = None,
      y_header = None, x_header = None, t_header = None, x_range = [], y_range = [],
      matpltlib_fig = None, matpltlib_ax = None, data_object_listeners = []\<rparr>"
  by (simp add: empty_group_state_def init_state_def addDataObject_def Let_def truthy_def
      basename_def rfind_def keys_def empty_table_def)

text \<open>
  C5 as the specification states it fails: one loaded dataset whose \<open>ID\<close> column has
  no row has no distinct value, so no grouped entry is made, and the effective
  collection falls back to the loaded dataset: its size is 1, not 0.
\<close>

theorem addSplitByID_no_rows_counterexample:
  "length (data_objects empty_group_state) = 1 \<and>
   sum_list (map (\<lambda>d. distinct_values (data d) ''ID'') (data_objects empty_group_state)) = 0 \<and>
   fst (addSplitByID empty_group_state ''ID'') = empty_group_state\<lparr>split_by_id := Some ''ID''\<rparr> \<and>
   length (getDataObjects (fst (addSplitByID empty_group_state ''ID''))) = 1"
  by (simp add: empty_group_state_eq addSplitByID_def Let_def splitByID_def groupby_def
      empty_table_def group_keys_def dropna_def List.map_filter_simps getDataObjects_def
      distinct_values_def)

subsection \<open>Notifying the listeners\<close>

lemma le_comparable_py_le: "a \<le> b \<Longrightarrow> comparable a b \<Longrightarrow> py_le a b"
  by (cases a; cases b)
     (auto simp: comparable_def py_le_def less_eq_prod_def less_eq_option_def
       split: option.splits if_splits)

lemma py_sorted_sorted:
  assumes "py_sorted xs = Inr ds"
  shows "sorted_wrt py_le (map sort_key_of ds) \<and> mset ds = mset xs"
proof -
  from assms have c: "\<forall>x\<in>set xs. \<forall>y\<in>set xs. comparable (sort_key_of x) (sort_key_of y)"
    and ds: "ds = sort_key sort_key_of xs"
    by (auto simp: py_sorted_def list_all_iff split: if_splits)
  have s: "sorted (map sort_key_of ds)" by (simp add: ds)
  have m: "mset ds = mset xs" by (simp add: ds)
  then have "set ds = set xs" by (rule mset_eq_setD)
  with c have k: "\<And>a b. a \<in> set (map sort_key_of ds) \<Longrightarrow> b \<in> set (map sort_key_of ds) \<Longrightarrow>
    comparable a b"
    by auto
  have "sorted_wrt py_le (map sort_key_of ds)"
  proof (rule sorted_wrt_mono_rel [of "map sort_key_of ds" "(\<le>)"])
    fix a b
    assume "a \<in> set (map sort_key_of ds)" "b \<in> set (map sort_key_of ds)" "a \<le> b"
    then show "py_le a b" using k le_comparable_py_le by blast
  next
    show "sorted (map sort_key_of ds)" by (rule s)
  qed
  with m show ?thesis by simp
qed

lemma update_sorted:
  assumes "update s = Inr ns"
  shows "map fst ns = data_object_listeners s \<and>
    list_all (\<lambda>n. sorted_wrt py_le (map sort_key_of (snd n)) \<and>
                  mset (snd n) = mset (getDataObjects s)) ns"
proof -
  from assms obtain ds where p: "py_sorted (getDataObjects s) = Inr ds"
    and ns: "ns = map (\<lambda>listener. (listener, ds)) (data_object_listeners s)"
    by (auto simp: update_def split: sum.splits)
  from py_sorted_sorted [OF p] ns show ?thesis
    by (simp add: list_all_iff comp_def)
qed

lemma addDataObject_update:
  "addDataObject s file_path df = (s', Inr ns) \<Longrightarrow> update s' = Inr ns"
  by (auto simp: addDataObject_def Let_def split: if_splits sum.splits)

lemma addSplitByID_update:
  "addSplitByID s i = (s', Inr ns) \<Longrightarrow> update s' = Inr ns"
  by (auto simp: addSplitByID_def Let_def split: if_splits prod.splits option.splits)

lemma reset_update: "reset s = (s', Inr ns) \<Longrightarrow> update s' = Inr ns"
  by (auto simp: reset_def Let_def)

text \<open>
  C9. Whenever \<^verbatim>\<open>addDataObject\<close>, \<^verbatim>\<open>addSplitByID\<close> or \<^verbatim>\<open>reset\<close> notifies, every
  registered listener is called once, in the order of registration, and the list each
  one receives holds the effective datasets of the state the operation leaves, sorted
  ascending by the pair of file name and group id in Python's order.
\<close>

theorem notifications_sorted:
  "addDataObject s file_path df = (s', Inr ns) \<or> addSplitByID s i = (s', Inr ns) \<or>
   reset s = (s', Inr ns) \<Longrightarrow>
   map fst ns = data_object_listeners s' \<and>
   list_all (\<lambda>n. sorted_wrt py_le (map sort_key_of (snd n)) \<and>
                 mset (snd n) = mset (getDataObjects s')) ns"
proof -
  assume "addDataObject s file_path df = (s', Inr ns) \<or> addSplitByID s i = (s', Inr ns) \<or>
   reset s = (s', Inr ns)"
  then have "update s' = Inr ns"
    using addDataObject_update addSplitByID_update reset_update by blast
  then show ?thesis by (rule update_sorted)
qed

subsection \<open>Group ids of the two collections\<close>

text \<open>
  In a state where no loaded dataset has a group id and every grouped entry has one,
  the sort of \<^verbatim>\<open>update\<close> compares no \<^verbatim>\<open>None\<close> with a string: the listeners are
  notified.
\<close>

lemma well_grouped_comparable:
  assumes "well_grouped s"
  shows "\<exists>ns. update s = Inr ns"
proof -
  from assms have "list_all ungrouped (getDataObjects s) \<or> list_all grouped (getDataObjects s)"
    by (auto simp: well_grouped_def getDataObjects_def)
  then have "list_all (\<lambda>x. list_all (\<lambda>y. comparable (sort_key_of x) (sort_key_of y))
    (getDataObjects s)) (getDataObjects s)"
    by (auto simp: list_all_iff comparable_def sort_key_of_def ungrouped_def grouped_def)
  then show ?thesis by (simp add: update_def py_sorted_def)
qed

lemma well_grouped_addDataObject:
  assumes "well_grouped s"
  shows "well_grouped (fst (addDataObject s file_path df))"
proof -
  let ?s1 = "s\<lparr>data_objects := data_objects s @
                 [\<lparr>filename = \<lparr>id_filename = basename file_path, id_id = None\<rparr>,
                   headers = keys df, data = df, selected = True\<rparr>]\<rparr>"
  from assms have w1: "well_grouped ?s1"
    by (simp add: well_grouped_def ungrouped_def)
  show ?thesis
  proof (cases "truthy (split_by_id ?s1)")
    case False
    with w1 show ?thesis by (simp add: addDataObject_def Let_def)
  next
    case True
    show ?thesis
    proof (cases "splitByID ?s1 (last (data_objects ?s1))")
      case (Inl e)
      with True w1 show ?thesis by (simp add: addDataObject_def Let_def)
    next
      case (Inr s2)
      from splitByID_fields [OF Inr] splitByID_grouped [OF Inr] w1
      have "well_grouped s2" by (simp add: well_grouped_def)
      with True Inr show ?thesis by (simp add: addDataObject_def Let_def)
    qed
  qed
qed

lemma well_grouped_addSplitByID:
  assumes "well_grouped s"
  shows "well_grouped (fst (addSplitByID s i))"
proof (cases "i = []")
  case True
  with assms show ?thesis by (simp add: addSplitByID_def Let_def well_grouped_def)
next
  case False
  let ?s2 = "s\<lparr>split_data_objects := [], split_by_id := Some i\<rparr>"
  obtain s3 r where e: "split_each ?s2 (data_objects ?s2) = (s3, r)"
    by (cases "split_each ?s2 (data_objects ?s2)")
  from split_each_fields [OF e] split_each_grouped [OF e] assms
  have "well_grouped s3" by (simp add: well_grouped_def)
  moreover from e False have "fst (addSplitByID s i) = s3"
    by (cases r) (simp_all add: addSplitByID_def Let_def)
  ultimately show ?thesis by simp
qed

lemma well_grouped_reset: "well_grouped (fst (reset s))"
  by (simp add: reset_def Let_def well_grouped_def)

lemma well_grouped_step: "well_grouped s \<Longrightarrow> well_grouped (step s op)"
  by (cases op)
     (simp_all add: well_grouped_addDataObject well_grouped_addSplitByID well_grouped_reset)

lemma well_grouped_run: "well_grouped s \<Longrightarrow> well_grouped (run s ops)"
  unfolding run_def by (induction ops arbitrary: s) (simp_all add: well_grouped_step)

lemma well_grouped_init: "well_grouped init_state"
  by (simp add: well_grouped_def init_state_def)

text \<open>
  C10. In every state reached from the initial state by a sequence of
  \<^verbatim>\<open>addDataObject\<close>, \<^verbatim>\<open>addSplitByID\<close> and \<^verbatim>\<open>reset\<close> calls, failed calls included,
  every loaded dataset has the group id \<^verbatim>\<open>None\<close> and every grouped entry has a group
  id that is a string; so the effective datasets all have no group id or all have one,
  and \<^verbatim>\<open>update\<close> on such a state does not raise.
\<close>

theorem reachable_well_grouped:
  "list_all ungrouped (data_objects (run init_state ops)) \<and>
   list_all grouped (split_data_objects (run init_state ops)) \<and>
   (list_all ungrouped (getDataObjects (run init_state ops)) \<or>
    list_all grouped (getDataObjects (run init_state ops))) \<and>
   (\<exists>ns. update (run init_state ops) = Inr ns)"
proof -
  have w: "well_grouped (run init_state ops)"
    using well_grouped_init by (rule well_grouped_run)
  then have "list_all ungrouped (getDataObjects (run init_state ops)) \<or>
    list_all grouped (getDataObjects (run init_state ops))"
    by (auto simp: well_grouped_def getDataObjects_def)
  with w well_grouped_comparable [OF w] show ?thesis by (simp add: well_grouped_def)
qed


lemma reversed_state_add:
  "snd (addDataObject reversed_state ''/data/a.csv'' example_table) =
     Inr [(0, [\<lparr>filename = \<lparr>id_filename = ''a.csv'', id_id = None\<rparr>,
                 headers = [''A'', ''B'', ''T'', ''ID''], data = example_table, selected = True\<rparr>,
               \<lparr>filename = \<lparr>id_filename = ''b.csv'', id_id = None\<rparr>,
                 headers = [''A'', ''B'', ''T''], data = second_table, selected = True\<rparr>])]"
  by code_simp

lemma reversed_state_ids:
  "getIDs (fst (addDataObject reversed_state ''/data/a.csv'' example_table)) =
     [''b.csv'', ''a.csv'']"
  by code_simp

theorem notifications_sorted_witness:
  "getIDs (fst (addDataObject reversed_state ''/data/a.csv'' example_table)) =
     [''b.csv'', ''a.csv''] \<and>
   map (\<lambda>n. map (\<lambda>d. str_of (filename d)) (snd n))
     (projr (snd (addDataObject reversed_state ''/data/a.csv'' example_table))) =
     [[''a.csv'', ''b.csv'']] \<and>
   list_all (\<lambda>n. sorted_wrt py_le (map sort_key_of (snd n)) \<and>
                 mset (snd n) =
                 mset (getDataObjects (fst (addDataObject reversed_state ''/data/a.csv''
                   example_table))))
     (projr (snd (addDataObject reversed_state ''/data/a.csv'' example_table)))"
proof -
  let ?r = "addDataObject reversed_state ''/data/a.csv'' example_table"
  have h: "?r = (fst ?r, Inr (projr (snd ?r)))"
    by (simp add: reversed_state_add prod_eq_iff)
  have "addDataObject reversed_state ''/data/a.csv'' example_table =
      (fst ?r, Inr (projr (snd ?r))) \<or>
    addSplitByID reversed_state [] = (fst ?r, Inr (projr (snd ?r))) \<or>
    reset reversed_state = (fst ?r, Inr (projr (snd ?r)))"
    using h by (rule disjI1)
  from notifications_sorted [OF this] reversed_state_ids show ?thesis
    by (simp add: reversed_state_add str_of_def)
qed

lemma example_run_ids:
  "map (\<lambda>d. str_of (filename d)) (data_objects (run init_state example_run)) =
     [''a.csv'', ''b.csv''] \<and>
   map (\<lambda>d. str_of (filename d)) (getDataObjects (run init_state example_run)) =
     [''a.csv::g1'', ''a.csv::g2'']"
  by code_simp

theorem reachable_well_grouped_witness:
  "map (\<lambda>d. str_of (filename d)) (data_objects (run init_state example_run)) =
     [''a.csv'', ''b.csv''] \<and>
   map (\<lambda>d. str_of (filename d)) (getDataObjects (run init_state example_run)) =
     [''a.csv::g1'', ''a.csv::g2''] \<and>
   list_all ungrouped (data_objects (run init_state example_run)) \<and>
   list_all grouped (split_data_objects (run init_state example_run)) \<and>
   (\<exists>ns. update (run init_state example_run) = Inr ns)"
  using reachable_well_grouped [of example_run] example_run_ids by simp

end
